theory Spec2Isabelle
  imports Complex_Main "HOL-Library.Signed_Division" "HOL-Library.Sublist"
begin

section \<open>Values\<close>

text \<open>
  A \<^verbatim>\<open>GLfloat\<close> (and the \<^verbatim>\<open>double\<close> of the angle computation) is either a
  finite number or a non-finite value (an infinity or a NaN; the two are not told apart,
  nor are the two zeros).

  \<open>+\<close>, \<open>*\<close> and \<open>/\<close> are the operations on the numbers without rounding, with a
  non-finite result for a division by zero and for a non-finite operand.  They stand for
  the \<^verbatim>\<open>double\<close> arithmetic that computes the angles at lines 231-232, which is
  handed on to the helpers as an expression, and they serve the reference instance of
  the helpers further down.  Nothing below uses the value of such a sum, product or
  quotient except on the operands 0, 1 and \<open>-5\<close>, where it is exact.  The arithmetic of
  \<open>setupViewport\<close>, on whose values statements do depend, is the rounding one that
  follows.
\<close>

datatype GLfloat = Num real | NonFinite

instantiation GLfloat :: "{plus, times, inverse}"
begin

fun plus_GLfloat :: "GLfloat \<Rightarrow> GLfloat \<Rightarrow> GLfloat" where
  "plus_GLfloat (Num a) (Num b) = Num (a + b)"
| "plus_GLfloat _ _ = NonFinite"

fun times_GLfloat :: "GLfloat \<Rightarrow> GLfloat \<Rightarrow> GLfloat" where
  "times_GLfloat (Num a) (Num b) = Num (a * b)"
| "times_GLfloat _ _ = NonFinite"

fun divide_GLfloat :: "GLfloat \<Rightarrow> GLfloat \<Rightarrow> GLfloat" where
  "divide_GLfloat (Num a) (Num b) = (if b = 0 then NonFinite else Num (a / b))"
| "divide_GLfloat _ _ = NonFinite"

fun inverse_GLfloat :: "GLfloat \<Rightarrow> GLfloat" where
  "inverse_GLfloat (Num b) = (if b = 0 then NonFinite else Num (1 / b))"
| "inverse_GLfloat NonFinite = NonFinite"

instance ..

end

text \<open>
  Single precision.  The arithmetic of \<^verbatim>\<open>float\<close> operands (line 81) rounds each
  result to the nearest number of the IEEE 754 binary32 format, a tie going to the even
  significand: 24 significant bits, the least exponent of a bit \<open>-149\<close>, and an infinity
  for a rounded magnitude of \<open>2^128\<close> or more.  Each operation is rounded on its own
  (\<^verbatim>\<open>FLT_EVAL_METHOD\<close> 0).
\<close>

definition round_even :: "real \<Rightarrow> int" where
  "round_even q =
    (let f = \<lfloor>q\<rfloor> in
     if q - of_int f < 1 / 2 then f
     else if 1 / 2 < q - of_int f then f + 1
     else if even f then f else f + 1)"

definition float32 :: "real \<Rightarrow> GLfloat" where
  "float32 x =
    (if x = 0 then Num 0
     else
       (let e = max (\<lfloor>log 2 \<bar>x\<bar>\<rfloor> - 23) (- 149);
            y = of_int (round_even (x / 2 powi e)) * 2 powi e
        in if 2 ^ 128 \<le> \<bar>y\<bar> then NonFinite else Num y))"

fun fmul :: "GLfloat \<Rightarrow> GLfloat \<Rightarrow> GLfloat" where
  "fmul (Num a) (Num b) = float32 (a * b)"
| "fmul _ _ = NonFinite"

fun fdiv :: "GLfloat \<Rightarrow> GLfloat \<Rightarrow> GLfloat" where
  "fdiv (Num a) (Num b) = (if b = 0 then NonFinite else float32 (a / b))"
| "fdiv _ _ = NonFinite"

text \<open>
  The implicit conversion of an \<^verbatim>\<open>int\<close> operand of a \<^verbatim>\<open>float\<close> operation: to
  the nearest \<^verbatim>\<open>float\<close>.
\<close>

definition float_of_int :: "int \<Rightarrow> GLfloat" where
  "float_of_int n = float32 (real_of_int n)"

text \<open>The largest finite \<^verbatim>\<open>float\<close>.\<close>

definition FLT_MAX :: real where
  "FLT_MAX = (2 ^ 24 - 1) * 2 ^ 104"

text \<open>\<^verbatim>\<open>M_PI\<close> of \<^verbatim>\<open>math.h\<close>.\<close>

definition M_PI :: GLfloat where
  "M_PI = Num pi"

text \<open>
  Locations, handles, window sizes and key states are compared, passed on and halved, and
  nothing else, so they are unbounded integers.
\<close>

type_synonym GLint = int
type_synonym GLuint = nat
type_synonym GLFWwindow = nat

text \<open>
  A 4x4 matrix is a C array of 16 floats holding the four columns one after the other
  (lines 158-160 of \<^verbatim>\<open>GLSLprimer.c\<close>).
\<close>

type_synonym mat4 = "GLfloat list"

text \<open>The asset paths (lines 58-68).  \<^verbatim>\<open>PATH\<close> depends on the platform macro.\<close>

definition PATH :: "bool \<Rightarrow> string" where
  "PATH apple = (if apple then ''../../../'' else '''')"

definition TEXTUREFILENAME :: "bool \<Rightarrow> string" where
  "TEXTUREFILENAME apple = PATH apple @ ''../textures/earth2048.tga''"

definition MESHFILENAME :: "bool \<Rightarrow> string" where
  "MESHFILENAME apple = PATH apple @ ''../meshes/trex.obj''"

definition VERTEXSHADERFILENAME :: "bool \<Rightarrow> string" where
  "VERTEXSHADERFILENAME apple = PATH apple @ ''../shaders/vertexshader.glsl''"

definition FRAGMENTSHADERFILENAME :: "bool \<Rightarrow> string" where
  "FRAGMENTSHADERFILENAME apple = PATH apple @ ''../shaders/fragmentshader.glsl''"

section \<open>Collaborators\<close>

text \<open>
  Modelled from the spec: the struct \<^verbatim>\<open>rotatorMouse\<close> of \<^verbatim>\<open>pollRotator.h\<close>
  (the header is not among the sources): ``two scalar angles (azimuth, elevation) plus
  last-known pointer position and button state''.  \<^verbatim>\<open>main\<close> reads \<open>phi\<close> and
  \<open>theta\<close> only.
\<close>

record rotatorMouse =
  phi :: GLfloat
  theta :: GLfloat
  lastX :: GLfloat
  lastY :: GLfloat
  lastLeft :: bool
  lastRight :: bool

text \<open>
  Modelled from the spec: the helpers \<^verbatim>\<open>initRotatorMouse\<close>, \<^verbatim>\<open>pollRotatorMouse\<close>
  (of \<^verbatim>\<open>pollRotator.h\<close>), \<^verbatim>\<open>mat4rotx\<close>, \<^verbatim>\<open>mat4roty\<close> and \<^verbatim>\<open>mat4mult\<close>
  (of \<^verbatim>\<open>tnm084.h\<close>), whose files are not among the sources.  They compute the values
  \<^verbatim>\<open>main\<close> goes on to use and are ``library calls with conventional signatures'':
  they are parameters of the model, each a function of its input arguments that writes
  the whole of its output argument.  \<open>'p\<close> is whatever \<^verbatim>\<open>pollRotatorMouse\<close> reads
  from the window (pointer position and buttons) at one poll.
\<close>

record 'p tnm084 =
  initRotatorMouse :: "rotatorMouse \<Rightarrow> rotatorMouse"
  pollRotatorMouse :: "'p \<Rightarrow> rotatorMouse \<Rightarrow> rotatorMouse"
  mat4rotx :: "GLfloat \<Rightarrow> mat4"
  mat4roty :: "GLfloat \<Rightarrow> mat4"
  mat4mult :: "mat4 \<Rightarrow> mat4 \<Rightarrow> mat4"

text \<open>The symbolic constants of the GLFW and OpenGL headers that \<^verbatim>\<open>main\<close> names.\<close>

datatype GLenum =
  GL_VENDOR | GL_RENDERER | GL_VERSION | GL_TEXTURE_2D | GL_DEPTH_TEST | GL_CULL_FACE
| GL_BACK | GL_COLOR_BUFFER_BIT | GL_DEPTH_BUFFER_BIT

datatype GLFWhint =
  GLFW_CONTEXT_VERSION_MAJOR | GLFW_CONTEXT_VERSION_MINOR | GLFW_OPENGL_FORWARD_COMPAT
| GLFW_OPENGL_PROFILE

datatype GLFWhintvalue = Number int | GL_TRUE | GLFW_OPENGL_CORE_PROFILE

datatype GLFWkey = GLFW_KEY_SPACE | GLFW_KEY_ESCAPE

datatype printf_arg = Str string | Dec int

text \<open>
  Every call \<^verbatim>\<open>main\<close> and \<^verbatim>\<open>setupViewport\<close> make into a library, grouped by
  library, with the arguments that are values (the handles of the window, the mesh and
  the texture are left out).  \<open>Util\<close> are the helpers of this framework
  (\<^verbatim>\<open>tnm084.h\<close>, \<^verbatim>\<open>tgaloader.h\<close>, \<^verbatim>\<open>triangleSoup.h\<close>, \<^verbatim>\<open>pollRotator.h\<close>);
  \<open>SoupReadOBJ\<close> is the loader named in the commented-out line 182.
\<close>

datatype glfw_call =
  GlfwInit
| GlfwGetPrimaryMonitor
| GlfwGetVideoMode
| GlfwWindowHint GLFWhint GLFWhintvalue
| GlfwCreateWindow int int string
| GlfwTerminate
| GlfwMakeContextCurrent
| GlfwSwapInterval int
| GlfwWindowShouldClose
| GlfwGetWindowSize
| GlfwGetTime
| GlfwSwapBuffers
| GlfwPollEvents
| GlfwGetKey GLFWkey
| GlfwSetWindowShouldClose bool
| GlfwDestroyWindow

datatype gl_call =
  GlGetString GLenum
| GlEnable GLenum
| GlGetUniformLocation GLuint string
| GlClearColor GLfloat GLfloat GLfloat GLfloat
| GlClear "GLenum list"
| GlViewport int int int int
| GlUseProgram GLuint
| GlUniform1i GLint int
| GlUniform1f GLint GLfloat
| GlUniformMatrix4fv GLint int bool mat4
| GlCullFace GLenum
| GlDeleteProgram GLuint

datatype util_call =
  InitRotatorMouse
| LoadExtensions
| SoupInit
| SoupCreateSphere GLfloat int
| SoupReadOBJ string
| SoupPrintInfo
| CreateTexture string
| CreateShader string string
| ComputeFPS
| PollRotatorMouse
| Mat4roty GLfloat
| Mat4rotx GLfloat
| Mat4mult mat4 mat4
| SoupRender

datatype call = GLFW glfw_call | GL gl_call | Util util_call | Printf string "printf_arg list"

text \<open>What the outside world answers during one iteration of the render loop.\<close>

record 'p frame_input =
  computeFPS_result :: GLfloat
  glfwGetWindowSize_result :: "int \<times> int"
  pointer :: 'p
  glfwGetTime_result :: GLfloat
  close_requested :: bool
  glfwGetKey_result :: "GLFWkey \<Rightarrow> int"
  createShader_reload :: GLuint

section \<open>The program state\<close>

text \<open>
  The local variables of \<^verbatim>\<open>main\<close> that hold values (lines 93-106, 152-177), the
  close flag that GLFW keeps for the window, and the calls made so far.
  \<open>Tz\<close> is initialised at line 161 and never assigned, so it is a constant.
\<close>

record locals =
  rotator :: rotatorMouse
  programObject :: GLuint
  location_time :: GLint
  location_MV :: GLint
  location_P :: GLint
  location_tex :: GLint
  time :: GLfloat
  fps :: GLfloat
  MV :: mat4
  R1 :: mat4
  R2 :: mat4
  P :: mat4
  shouldClose :: bool
  trace :: "call list"

definition Tz :: mat4 where
  "Tz = [Num 1, Num 0, Num 0, Num 0,
         Num 0, Num 1, Num 0, Num 0,
         Num 0, Num 0, Num 1, Num 0,
         Num 0, Num 0, Num (-5), Num 1]"

definition P_initial :: mat4 where
  "P_initial = [Num 4, Num 0, Num 0, Num 0,
                Num 0, Num 4, Num 0, Num 0,
                Num 0, Num 0, Num (-2.5), Num (-1),
                Num 0, Num 0, Num (-10.5), Num 0]"

definition call :: "call \<Rightarrow> locals \<Rightarrow> locals" where
  "call c s = s\<lparr>trace := trace s @ [c]\<rparr>"

section \<open>\<^verbatim>\<open>setupViewport\<close> (lines 73-85)\<close>

text \<open>
  The pointer argument is \<^verbatim>\<open>main\<close>'s array \<open>P\<close> (the only call, line 210).  The first
  argument is what \<^verbatim>\<open>glfwGetWindowSize\<close> stores in \<open>width\<close> and \<open>height\<close>.  In
  \<^verbatim>\<open>P[5]*height/width\<close> the operands of each operation are \<^verbatim>\<open>float\<close>s after the
  conversion of the \<^verbatim>\<open>int\<close>, so both operations are single precision.  There is no
  test of \<open>width\<close> before the division.
\<close>

fun setupViewport :: "int \<times> int \<Rightarrow> locals \<Rightarrow> locals" where
  "setupViewport (width, height) s =
    (let s = call (GLFW GlfwGetWindowSize) s;
         s = s\<lparr>P := (P s)[0 := fdiv (fmul (P s ! 5) (float_of_int height)) (float_of_int width)]\<rparr>;
         s = call (GL (GlViewport 0 0 width height)) s
     in s)"

declare setupViewport.simps [simp del]

section \<open>One iteration of the render loop (lines 200-275)\<close>

text \<open>Lines 219-222: tell the shader that texture unit 0 is used.\<close>

definition push_tex :: "locals \<Rightarrow> locals" where
  "push_tex s =
    (if location_tex s \<noteq> -1 then call (GL (GlUniform1i (location_tex s) 0)) s else s)"

text \<open>Lines 224-228: the uniform time variable.  The clock is read inside the test.\<close>

definition push_time :: "GLfloat \<Rightarrow> locals \<Rightarrow> locals" where
  "push_time now s =
    (if location_time s \<noteq> -1 then
       (let s = call (GLFW GlfwGetTime) s;
            s = s\<lparr>time := now\<rparr>;
            s = call (GL (GlUniform1f (location_time s) (time s))) s
        in s)
     else s)"

text \<open>
  Lines 230-234: \<open>MV\<close> from the rotator.  In the last call the output array is also the
  second input; the helper is taken to read its inputs before it writes its output.
\<close>

definition modify_MV :: "'p tnm084 \<Rightarrow> locals \<Rightarrow> locals" where
  "modify_MV lib s =
    (let s = call (Util (Mat4roty (phi (rotator s) * M_PI / Num 180))) s;
         s = s\<lparr>R1 := mat4roty lib (phi (rotator s) * M_PI / Num 180)\<rparr>;
         s = call (Util (Mat4rotx (theta (rotator s) * M_PI / Num 180))) s;
         s = s\<lparr>R2 := mat4rotx lib (theta (rotator s) * M_PI / Num 180)\<rparr>;
         s = call (Util (Mat4mult (R2 s) (R1 s))) s;
         s = s\<lparr>MV := mat4mult lib (R2 s) (R1 s)\<rparr>;
         s = call (Util (Mat4mult Tz (MV s))) s;
         s = s\<lparr>MV := mat4mult lib Tz (MV s)\<rparr>
     in s)"

text \<open>Lines 237-240 and 242-245: the two matrices.\<close>

definition push_MV :: "locals \<Rightarrow> locals" where
  "push_MV s =
    (if location_MV s \<noteq> -1 then call (GL (GlUniformMatrix4fv (location_MV s) 1 False (MV s))) s
     else s)"

definition push_P :: "locals \<Rightarrow> locals" where
  "push_P s =
    (if location_P s \<noteq> -1 then call (GL (GlUniformMatrix4fv (location_P s) 1 False (P s))) s
     else s)"

text \<open>Lines 247-260: draw the scene and show it.\<close>

definition draw :: "locals \<Rightarrow> locals" where
  "draw s =
    (let s = call (GL (GlEnable GL_DEPTH_TEST)) s;
         s = call (GL (GlEnable GL_CULL_FACE)) s;
         s = call (GL (GlCullFace GL_BACK)) s;
         s = call (Util SoupRender) s;
         s = call (GL (GlUseProgram 0)) s;
         s = call (GLFW GlfwSwapBuffers) s
     in s)"

text \<open>
  Lines 265-269: the state of the space bar is read once in every iteration, and a
  non-zero answer deletes the program and compiles a new one.  No earlier answer is
  kept, and the four cached locations are not assigned.
\<close>

definition reload :: "bool \<Rightarrow> 'p frame_input \<Rightarrow> locals \<Rightarrow> locals" where
  "reload apple i s =
    (let s = call (GLFW (GlfwGetKey GLFW_KEY_SPACE)) s in
     if glfwGetKey_result i GLFW_KEY_SPACE \<noteq> 0 then
       (let s = call (GL (GlDeleteProgram (programObject s))) s;
            s = call (Util (CreateShader (VERTEXSHADERFILENAME apple)
                              (FRAGMENTSHADERFILENAME apple))) s;
            s = s\<lparr>programObject := createShader_reload i\<rparr>
        in s)
     else s)"

text \<open>Lines 271-274: the escape key.\<close>

definition escape :: "'p frame_input \<Rightarrow> locals \<Rightarrow> locals" where
  "escape i s =
    (let s = call (GLFW (GlfwGetKey GLFW_KEY_ESCAPE)) s in
     if glfwGetKey_result i GLFW_KEY_ESCAPE \<noteq> 0 then
       (let s = call (GLFW (GlfwSetWindowShouldClose True)) s;
            s = s\<lparr>shouldClose := True\<rparr>
        in s)
     else s)"

text \<open>
  The body of the loop, in the order of the source.  \<^verbatim>\<open>glfwPollEvents\<close> (line 263) is
  where a request to close the window reaches the close flag.
\<close>

definition frame :: "'p tnm084 \<Rightarrow> bool \<Rightarrow> 'p frame_input \<Rightarrow> locals \<Rightarrow> locals" where
  "frame lib apple i s =
    (let s = call (Util ComputeFPS) s;
         s = s\<lparr>fps := computeFPS_result i\<rparr>;
         s = call (GL (GlClearColor (Num 0.3) (Num 0.3) (Num 0.3) (Num 0))) s;
         s = call (GL (GlClear [GL_COLOR_BUFFER_BIT, GL_DEPTH_BUFFER_BIT])) s;
         s = setupViewport (glfwGetWindowSize_result i) s;
         s = call (Util PollRotatorMouse) s;
         s = s\<lparr>rotator := pollRotatorMouse lib (pointer i) (rotator s)\<rparr>;
         s = call (GL (GlUseProgram (programObject s))) s;
         s = push_tex s;
         s = push_time (glfwGetTime_result i) s;
         s = modify_MV lib s;
         s = push_MV s;
         s = push_P s;
         s = draw s;
         s = call (GLFW GlfwPollEvents) s;
         s = s\<lparr>shouldClose := (shouldClose s \<or> close_requested i)\<rparr>;
         s = reload apple i s;
         s = escape i s
     in s)"

text \<open>
  The loop runs one iteration for each recorded answer of the outside world.  The second
  component says whether the loop was left; it is \<open>False\<close> when the recorded answers
  end while the window is still open.
\<close>

fun render_loop ::
  "'p tnm084 \<Rightarrow> bool \<Rightarrow> 'p frame_input list \<Rightarrow> locals \<Rightarrow> locals \<times> bool" where
  "render_loop lib apple [] s =
    (let s = call (GLFW GlfwWindowShouldClose) s in (s, shouldClose s))"
| "render_loop lib apple (i # ins) s =
    (let s = call (GLFW GlfwWindowShouldClose) s in
     if shouldClose s then (s, True) else render_loop lib apple ins (frame lib apple i s))"

section \<open>\<^verbatim>\<open>main\<close> (lines 91-283)\<close>

text \<open>
  What the outside world answers during start-up, and the answers of every iteration.
  \<open>indeterminate\<close> holds the contents of the locals before they are assigned.
  \<open>APPLE\<close> says whether \<^verbatim>\<open>__APPLE__\<close> is defined.
\<close>

record 'p env =
  APPLE :: bool
  indeterminate :: locals
  glfwInit_result :: int
  glfwGetVideoMode_result :: "(int \<times> int) option"
  glfwCreateWindow_result :: "GLFWwindow option"
  glGetString_result :: "GLenum \<Rightarrow> string"
  createShader_result :: GLuint
  glGetUniformLocation_result :: "GLuint \<Rightarrow> string \<Rightarrow> GLint"
  frames :: "'p frame_input list"

datatype outcome = Exit int | NullPointer | Running

text \<open>
  Lines 93-111: the locals, of which only \<open>fps\<close> is initialised, the rotator, and the
  call of \<^verbatim>\<open>glfwInit\<close>.
\<close>

definition preamble :: "'p tnm084 \<Rightarrow> 'p env \<Rightarrow> locals" where
  "preamble lib e =
    (let s = (indeterminate e)\<lparr>fps := Num 0, trace := []\<rparr>;
         s = call (Util InitRotatorMouse) s;
         s = s\<lparr>rotator := initRotatorMouse lib (rotator s)\<rparr>;
         s = call (GLFW GlfwInit) s
     in s)"

text \<open>Lines 116-124: the monitor, its video mode and the four window hints.\<close>

definition hints :: "locals \<Rightarrow> locals" where
  "hints s =
    (let s = call (GLFW GlfwGetPrimaryMonitor) s;
         s = call (GLFW GlfwGetVideoMode) s;
         s = call (GLFW (GlfwWindowHint GLFW_CONTEXT_VERSION_MAJOR (Number 3))) s;
         s = call (GLFW (GlfwWindowHint GLFW_CONTEXT_VERSION_MINOR (Number 3))) s;
         s = call (GLFW (GlfwWindowHint GLFW_OPENGL_FORWARD_COMPAT GL_TRUE)) s;
         s = call (GLFW (GlfwWindowHint GLFW_OPENGL_PROFILE GLFW_OPENGL_CORE_PROFILE)) s
     in s)"

text \<open>Line 126: the window, half the size of the desktop.\<close>

definition open_window :: "int \<times> int \<Rightarrow> locals \<Rightarrow> locals" where
  "open_window vidmode s =
     call (GLFW (GlfwCreateWindow (fst vidmode sdiv 2) (snd vidmode sdiv 2) ''Hello GLSL'')) s"

text \<open>Lines 134-197: from the new window to the cached uniform locations.\<close>

definition startup :: "'p env \<Rightarrow> int \<times> int \<Rightarrow> locals \<Rightarrow> locals" where
  "startup e vidmode s =
    (let s = call (GLFW GlfwMakeContextCurrent) s;
         s = call (GLFW (GlfwSwapInterval 0)) s;
         s = call (Util LoadExtensions) s;
         s = call (GL (GlGetString GL_VENDOR)) s;
         s = call (Printf ''GL vendor:       %s\<newline>'' [Str (glGetString_result e GL_VENDOR)]) s;
         s = call (GL (GlGetString GL_RENDERER)) s;
         s = call (Printf ''GL renderer:     %s\<newline>'' [Str (glGetString_result e GL_RENDERER)]) s;
         s = call (GL (GlGetString GL_VERSION)) s;
         s = call (Printf ''GL version:      %s\<newline>'' [Str (glGetString_result e GL_VERSION)]) s;
         s = call (Printf ''Desktop size:    %d x %d pixels\<newline>''
                     [Dec (fst vidmode), Dec (snd vidmode)]) s;
         s = s\<lparr>P := P_initial\<rparr>;
         s = call (Util SoupInit) s;
         s = call (Util (SoupCreateSphere (Num 1) 50)) s;
         s = call (Util SoupPrintInfo) s;
         s = call (GL (GlEnable GL_TEXTURE_2D)) s;
         s = call (Util (CreateTexture (TEXTUREFILENAME (APPLE e)))) s;
         s = call (Util (CreateShader (VERTEXSHADERFILENAME (APPLE e))
                           (FRAGMENTSHADERFILENAME (APPLE e)))) s;
         s = s\<lparr>programObject := createShader_result e\<rparr>;
         s = call (GL (GlGetUniformLocation (programObject s) ''MV'')) s;
         s = s\<lparr>location_MV := glGetUniformLocation_result e (programObject s) ''MV''\<rparr>;
         s = call (GL (GlGetUniformLocation (programObject s) ''P'')) s;
         s = s\<lparr>location_P := glGetUniformLocation_result e (programObject s) ''P''\<rparr>;
         s = call (GL (GlGetUniformLocation (programObject s) ''time'')) s;
         s = s\<lparr>location_time := glGetUniformLocation_result e (programObject s) ''time''\<rparr>;
         s = call (GL (GlGetUniformLocation (programObject s) ''tex'')) s;
         s = s\<lparr>location_tex := glGetUniformLocation_result e (programObject s) ''tex''\<rparr>
     in s)"

text \<open>
  Lines 199-283: the render loop and what follows it.  \<open>Running\<close> is the run whose
  recorded answers end with the window still open.
\<close>

definition run :: "'p tnm084 \<Rightarrow> 'p env \<Rightarrow> locals \<Rightarrow> locals \<times> outcome" where
  "run lib e s =
    (let (s, left) = render_loop lib (APPLE e) (frames e) s in
     if left then
       (let s = call (GLFW GlfwDestroyWindow) s;
            s = call (GLFW GlfwTerminate) s
        in (s, Exit 0))
     else (s, Running))"

text \<open>
  The whole program: the final state (with the calls made) and how the run ended.
  \<^verbatim>\<open>vidmode->width\<close> at line 126 reads through the pointer that
  \<^verbatim>\<open>glfwGetVideoMode\<close> returned; \<open>NullPointer\<close> is the run in which that pointer is
  null.  A new window has its close flag cleared.
\<close>

definition main :: "'p tnm084 \<Rightarrow> 'p env \<Rightarrow> locals \<times> outcome" where
  "main lib e =
    (let s = preamble lib e in
     if glfwInit_result e = 0 then
       (call (Printf ''Failed to initialise GLFW. Exiting.\<newline>'' []) s, Exit (- 1))
     else
       (let s = hints s in
        case glfwGetVideoMode_result e of
          None \<Rightarrow> (s, NullPointer)
        | Some vidmode \<Rightarrow>
           (let s = open_window vidmode s in
            case glfwCreateWindow_result e of
              None \<Rightarrow>
               (let s = call (Printf ''Failed to open GLFW window. Exiting.\<newline>'' []) s;
                    s = call (GLFW GlfwTerminate) s
                in (s, Exit (- 1)))
            | Some window \<Rightarrow>
               (let s = s\<lparr>shouldClose := False\<rparr>;
                    s = startup e vidmode s
                in run lib e s))))"

text \<open>The state in which the loop is entered when GLFW has started and the window is open.\<close>

definition loop_entry :: "'p tnm084 \<Rightarrow> 'p env \<Rightarrow> int \<times> int \<Rightarrow> locals" where
  "loop_entry lib e vidmode =
     startup e vidmode ((open_window vidmode (hints (preamble lib e)))\<lparr>shouldClose := False\<rparr>)"

section \<open>A reference instance of the collaborators\<close>

text \<open>
  Modelled from the spec: one instance of the helpers that are not among the sources, the
  conventional one (``multiply 4x4 matrices'', rotations about the x and the y axis, a
  rotator that starts at zero and accumulates the pointer movement of a drag), on
  column-major arrays as lines 158-166 lay them out.  A pointer sample is the movement
  \<open>(dx, dy)\<close> dragged since the last poll.  The theorems hold for every instance of the
  helpers; this one serves to run the model on concrete inputs.
\<close>

definition ref_mat4rotx :: "GLfloat \<Rightarrow> mat4" where
  "ref_mat4rotx angle =
    (case angle of
       Num a \<Rightarrow> [Num 1, Num 0, Num 0, Num 0,
                 Num 0, Num (cos a), Num (sin a), Num 0,
                 Num 0, Num (- sin a), Num (cos a), Num 0,
                 Num 0, Num 0, Num 0, Num 1]
     | NonFinite \<Rightarrow> replicate 16 NonFinite)"

definition ref_mat4roty :: "GLfloat \<Rightarrow> mat4" where
  "ref_mat4roty angle =
    (case angle of
       Num a \<Rightarrow> [Num (cos a), Num 0, Num (- sin a), Num 0,
                 Num 0, Num 1, Num 0, Num 0,
                 Num (sin a), Num 0, Num (cos a), Num 0,
                 Num 0, Num 0, Num 0, Num 1]
     | NonFinite \<Rightarrow> replicate 16 NonFinite)"

definition ref_mat4mult :: "mat4 \<Rightarrow> mat4 \<Rightarrow> mat4" where
  "ref_mat4mult M1 M2 =
    [M1 ! i * M2 ! (j * 4) + M1 ! (i + 4) * M2 ! (1 + j * 4)
       + M1 ! (i + 8) * M2 ! (2 + j * 4) + M1 ! (i + 12) * M2 ! (3 + j * 4).
     j \<leftarrow> [0, 1, 2, 3], i \<leftarrow> [0, 1, 2, 3]]"

definition ref_tnm084 :: "(GLfloat \<times> GLfloat) tnm084" where
  "ref_tnm084 =
    \<lparr>initRotatorMouse = (\<lambda>r. r\<lparr>phi := Num 0, theta := Num 0, lastX := Num 0, lastY := Num 0,
                                 lastLeft := False, lastRight := False\<rparr>),
     pollRotatorMouse = (\<lambda>(dx, dy) r. r\<lparr>phi := phi r + dx, theta := theta r + dy\<rparr>),
     mat4rotx = ref_mat4rotx,
     mat4roty = ref_mat4roty,
     mat4mult = ref_mat4mult\<rparr>"

section \<open>Observations on a run\<close>

text \<open>The calls that one iteration, and a run of the loop, add to the calls made before.\<close>

definition frame_calls :: "'p tnm084 \<Rightarrow> bool \<Rightarrow> 'p frame_input \<Rightarrow> locals \<Rightarrow> call list" where
  "frame_calls lib apple i s = drop (length (trace s)) (trace (frame lib apple i s))"

definition loop_calls ::
  "'p tnm084 \<Rightarrow> bool \<Rightarrow> 'p frame_input list \<Rightarrow> locals \<Rightarrow> call list" where
  "loop_calls lib apple ins s =
     drop (length (trace s)) (trace (fst (render_loop lib apple ins s)))"

text \<open>The answers of the iterations that the loop runs: those before the close flag is seen.\<close>

fun frames_run :: "'p tnm084 \<Rightarrow> bool \<Rightarrow> 'p frame_input list \<Rightarrow> locals \<Rightarrow> 'p frame_input list" where
  "frames_run lib apple [] s = []"
| "frames_run lib apple (i # ins) s =
    (let s = call (GLFW GlfwWindowShouldClose) s in
     if shouldClose s then [] else i # frames_run lib apple ins (frame lib apple i s))"

text \<open>The rotator after the poll of an iteration, and the projection matrix after its resize.\<close>

definition polled :: "'p tnm084 \<Rightarrow> 'p frame_input \<Rightarrow> locals \<Rightarrow> rotatorMouse" where
  "polled lib i s = pollRotatorMouse lib (pointer i) (rotator s)"

definition resized :: "'p frame_input \<Rightarrow> locals \<Rightarrow> mat4" where
  "resized i s =
     (P s)[0 := fdiv (fmul (P s ! 5) (float_of_int (snd (glfwGetWindowSize_result i))))
                     (float_of_int (fst (glfwGetWindowSize_result i)))]"

text \<open>
  The spec's \<open>Translation(x, y, z)\<close>, as a column-major array: the identity with the
  offsets in the fourth column.
\<close>

definition Translation :: "real \<Rightarrow> real \<Rightarrow> real \<Rightarrow> mat4" where
  "Translation x y z =
     [Num 1, Num 0, Num 0, Num 0,
      Num 0, Num 1, Num 0, Num 0,
      Num 0, Num 0, Num 1, Num 0,
      Num x, Num y, Num z, Num 1]"

text \<open>
  The spec's composition \<open>Translation(0,0,-5) \<times> RotationX(elevation) \<times> RotationY(azimuth)\<close>
  for angles in degrees, with the helpers as the product and the rotations.
\<close>

definition composed :: "'p tnm084 \<Rightarrow> rotatorMouse \<Rightarrow> mat4" where
  "composed lib r =
     mat4mult lib (Translation 0 0 (- 5))
       (mat4mult lib (mat4rotx lib (theta r * M_PI / Num 180))
                     (mat4roty lib (phi r * M_PI / Num 180)))"

text \<open>
  The model-view matrix as lines 230-234 compute it, as a function of the two angles
  (in degrees) alone.
\<close>

definition model_view :: "'p tnm084 \<Rightarrow> GLfloat \<Rightarrow> GLfloat \<Rightarrow> mat4" where
  "model_view lib azimuth elevation =
     mat4mult lib Tz
       (mat4mult lib (mat4rotx lib (elevation * M_PI / Num 180))
                     (mat4roty lib (azimuth * M_PI / Num 180)))"

text \<open>The calls that set a uniform, and the location each of them names.\<close>

fun is_upload :: "call \<Rightarrow> bool" where
  "is_upload (GL (GlUniform1i l v)) = True"
| "is_upload (GL (GlUniform1f l v)) = True"
| "is_upload (GL (GlUniformMatrix4fv l n t m)) = True"
| "is_upload _ = False"

fun upload_location :: "call \<Rightarrow> GLint option" where
  "upload_location (GL (GlUniform1i l v)) = Some l"
| "upload_location (GL (GlUniform1f l v)) = Some l"
| "upload_location (GL (GlUniformMatrix4fv l n t m)) = Some l"
| "upload_location _ = None"

fun is_delete :: "call \<Rightarrow> bool" where
  "is_delete (GL (GlDeleteProgram p)) = True"
| "is_delete _ = False"

fun is_compile :: "call \<Rightarrow> bool" where
  "is_compile (Util (CreateShader v f)) = True"
| "is_compile _ = False"

fun is_location_query :: "call \<Rightarrow> bool" where
  "is_location_query (GL (GlGetUniformLocation p n)) = True"
| "is_location_query _ = False"

text \<open>The files a call names, and the calls that give the mesh its geometry.\<close>

fun files_named :: "call \<Rightarrow> string list" where
  "files_named (Util (SoupReadOBJ f)) = [f]"
| "files_named (Util (CreateTexture f)) = [f]"
| "files_named (Util (CreateShader v f)) = [v, f]"
| "files_named _ = []"

fun is_mesh_source :: "call \<Rightarrow> bool" where
  "is_mesh_source (Util (SoupReadOBJ f)) = True"
| "is_mesh_source (Util (SoupCreateSphere r n)) = True"
| "is_mesh_source _ = False"

text \<open>\<open>before a b cs\<close>: after the first \<open>a\<close> in \<open>cs\<close> there is a \<open>b\<close>.\<close>

definition before :: "call \<Rightarrow> call \<Rightarrow> call list \<Rightarrow> bool" where
  "before a b cs = (b \<in> set (drop 1 (dropWhile (\<lambda>c. c \<noteq> a) cs)))"

text \<open>
  The presses of a key in a sequence of its sampled states: a press is a sample that is
  down after a sample that was up (\<open>down\<close> is the state before the first sample).
\<close>

fun press_edges :: "bool \<Rightarrow> int list \<Rightarrow> nat" where
  "press_edges down [] = 0"
| "press_edges down (k # ks) =
     (if k \<noteq> 0 \<and> \<not> down then 1 else 0) + press_edges (k \<noteq> 0) ks"

definition space_down :: "'p frame_input \<Rightarrow> bool" where
  "space_down i = (glfwGetKey_result i GLFW_KEY_SPACE \<noteq> 0)"

section \<open>Concrete inputs\<close>

text \<open>
  A state in the loop: the shader declares \<open>MV\<close>, \<open>P\<close> and \<open>time\<close> but not \<open>tex\<close>.
  \<open>other_locals\<close> has the same rotator and other contents in the matrices.
\<close>

definition sample_rotator :: rotatorMouse where
  "sample_rotator = \<lparr>phi = Num 0, theta = Num 0, lastX = Num 0, lastY = Num 0,
                      lastLeft = False, lastRight = False\<rparr>"

definition sample_locals :: locals where
  "sample_locals =
    \<lparr>rotator = sample_rotator, programObject = 1,
     location_time = 2, location_MV = 0, location_P = 1, location_tex = - 1,
     time = Num 0, fps = Num 0,
     MV = replicate 16 (Num 0), R1 = replicate 16 (Num 0), R2 = replicate 16 (Num 0),
     P = P_initial, shouldClose = False, trace = []\<rparr>"

definition other_locals :: locals where
  "other_locals = sample_locals\<lparr>MV := replicate 16 (Num 7), R1 := Tz, R2 := P_initial,
                                 time := Num 3\<rparr>"

text \<open>
  The same angles once more, after the pointer has moved with no button held, and with
  other contents in the matrices.
\<close>

definition moved_locals :: locals where
  "moved_locals =
     other_locals\<lparr>rotator := sample_rotator\<lparr>lastX := Num 10, lastY := Num 20\<rparr>\<rparr>"

definition no_keys :: "GLFWkey \<Rightarrow> int" where
  "no_keys k = 0"

definition space_key :: "GLFWkey \<Rightarrow> int" where
  "space_key k = (if k = GLFW_KEY_SPACE then 1 else 0)"

definition escape_key :: "GLFWkey \<Rightarrow> int" where
  "escape_key k = (if k = GLFW_KEY_ESCAPE then 1 else 0)"

definition sample_frame :: "(GLfloat \<times> GLfloat) frame_input" where
  "sample_frame =
    \<lparr>computeFPS_result = Num 60, glfwGetWindowSize_result = (800, 400),
     pointer = (Num 0, Num 0), glfwGetTime_result = Num 1, close_requested = False,
     glfwGetKey_result = no_keys, createShader_reload = 2\<rparr>"

text \<open>The space bar held down over two iterations, then the escape key.\<close>

definition sample_frames :: "(GLfloat \<times> GLfloat) frame_input list" where
  "sample_frames =
    [sample_frame\<lparr>glfwGetKey_result := space_key, createShader_reload := 2\<rparr>,
     sample_frame\<lparr>glfwGetKey_result := space_key, createShader_reload := 3\<rparr>,
     sample_frame\<lparr>glfwGetKey_result := escape_key\<rparr>]"

definition sample_locations :: "GLuint \<Rightarrow> string \<Rightarrow> GLint" where
  "sample_locations p n =
    (if n = ''MV'' then 0 else if n = ''P'' then 1 else if n = ''time'' then 2 else - 1)"

definition sample_env :: "(GLfloat \<times> GLfloat) env" where
  "sample_env =
    \<lparr>APPLE = False, indeterminate = other_locals, glfwInit_result = 1,
     glfwGetVideoMode_result = Some (1600, 800), glfwCreateWindow_result = Some 1,
     glGetString_result = (\<lambda>n. []), createShader_result = 1,
     glGetUniformLocation_result = sample_locations, frames = sample_frames\<rparr>"

section \<open>Single-precision rounding\<close>

lemma floor_log2:
  assumes "2 powi k \<le> x" and "x < 2 powi (k + 1)"
  shows "\<lfloor>log 2 x\<rfloor> = k"
proof -
  have "(0::real) < 2 powi k" by simp
  with assms(1) have "0 < x" by linarith
  moreover have "(2::real) powr real_of_int k = 2 powi k"
    by (simp add: powr_real_of_int')
  moreover have "(2::real) powr real_of_int (k + 1) = 2 powi (k + 1)"
    by (rule powr_real_of_int') simp_all
  ultimately show ?thesis
    using assms floor_log_eq_powr_iff [of x 2 k] by simp
qed

lemma floor_log2_bound:
  assumes "0 < x"
  shows "2 powi \<lfloor>log 2 x\<rfloor> \<le> x"
proof -
  have "(2::real) powr real_of_int \<lfloor>log 2 x\<rfloor> \<le> x"
    using assms floor_log_eq_powr_iff [of x 2 "\<lfloor>log 2 x\<rfloor>"] by simp
  then show ?thesis by (simp add: powr_real_of_int')
qed

lemma round_even_nonzero:
  assumes "1 \<le> \<bar>q\<bar>"
  shows "round_even q \<noteq> 0"
proof -
  define f where "f = \<lfloor>q\<rfloor>"
  have b: "of_int f \<le> q" "q < of_int f + 1"
    unfolding f_def by linarith+
  have r: "round_even q =
      (if q - of_int f < 1 / 2 then f
       else if 1 / 2 < q - of_int f then f + 1
       else if even f then f else f + 1)"
    by (simp add: round_even_def f_def)
  consider (pos) "1 \<le> q" | (neg) "q \<le> - 1"
    using assms by linarith
  then show ?thesis
  proof cases
    case pos
    with b have "0 < f" by linarith
    then show ?thesis unfolding r by simp
  next
    case neg
    with b have f: "f \<le> - 1" by linarith
    show ?thesis
    proof (cases "q - of_int f < 1 / 2")
      case True
      with f show ?thesis unfolding r by simp
    next
      case False
      with neg have "f \<le> - 2" by linarith
      then show ?thesis unfolding r by simp
    qed
  qed
qed

text \<open>Rounding a number whose binary exponent is known.\<close>

lemma float32_eval:
  assumes "x \<noteq> 0" and "2 powi k \<le> \<bar>x\<bar>" and "\<bar>x\<bar> < 2 powi (k + 1)"
  shows "float32 x =
    (let e = max (k - 23) (- 149);
         y = of_int (round_even (x / 2 powi e)) * 2 powi e
     in if 2 ^ 128 \<le> \<bar>y\<bar> then NonFinite else Num y)"
  using assms floor_log2 [of k "\<bar>x\<bar>"] by (simp add: float32_def)

text \<open>A number of magnitude 1 or more does not round to zero.\<close>

lemma float32_nonzero:
  assumes "1 \<le> \<bar>x\<bar>"
  shows "float32 x \<noteq> Num 0"
proof -
  define k where "k = \<lfloor>log 2 \<bar>x\<bar>\<rfloor>"
  have x: "x \<noteq> 0" "0 < \<bar>x\<bar>" using assms by auto
  have "0 \<le> log 2 \<bar>x\<bar>" using assms by simp
  then have k: "0 \<le> k" by (simp add: k_def)
  have low: "2 powi k \<le> \<bar>x\<bar>"
    unfolding k_def using x(2) by (rule floor_log2_bound)
  have e: "max (k - 23) (- 149) = k - 23" using k by simp
  have "(2::real) powi (k - 23) \<le> 2 powi k"
    by (rule power_int_increasing) simp_all
  with low have "2 powi (k - 23) \<le> \<bar>x\<bar>" by linarith
  then have "1 \<le> \<bar>x / 2 powi (k - 23)\<bar>"
    by (simp add: field_simps)
  then have "round_even (x / 2 powi (k - 23)) \<noteq> 0"
    by (rule round_even_nonzero)
  then show ?thesis
    using x(1) e by (simp add: float32_def Let_def k_def)
qed

lemma float_of_int_zero_iff: "float_of_int w = Num 0 \<longleftrightarrow> w = 0"
proof
  assume z: "float_of_int w = Num 0"
  show "w = 0"
  proof (rule ccontr)
    assume "w \<noteq> 0"
    then have "1 \<le> \<bar>real_of_int w\<bar>" by linarith
    then have "float32 (real_of_int w) \<noteq> Num 0" by (rule float32_nonzero)
    with z show False by (simp add: float_of_int_def)
  qed
next
  assume "w = 0"
  then show "float_of_int w = Num 0" by (simp add: float_of_int_def float32_def)
qed

lemma fdiv_by_zero: "fdiv x (Num 0) = NonFinite"
  by (cases x) simp_all

text \<open>Some numbers that are floats, one that is not, and one beyond the largest float.\<close>

lemma float32_samples:
  "float32 0 = Num 0" "float32 1 = Num 1" "float32 2 = Num 2" "float32 3 = Num 3"
  "float32 4 = Num 4" "float32 400 = Num 400" "float32 800 = Num 800"
  "float32 1600 = Num 1600"
  by (simp add: float32_def,
      simp add: float32_eval [of _ 0] round_even_def,
      simp add: float32_eval [of _ 1] round_even_def,
      simp add: float32_eval [of _ 1] round_even_def,
      simp add: float32_eval [of _ 2] round_even_def,
      simp add: float32_eval [of _ 8] round_even_def,
      simp add: float32_eval [of _ 9] round_even_def,
      simp add: float32_eval [of _ 10] round_even_def)

lemma float32_four_thirds: "float32 (4 / 3) = Num (11184811 / 8388608)"
proof -
  have "\<lfloor>(4 / 3 * 8388608 :: real)\<rfloor> = 11184810" by linarith
  then show ?thesis
    by (simp add: float32_eval [of _ 0] Let_def round_even_def)
qed

lemma float32_twice_FLT_MAX: "float32 (FLT_MAX * 2) = NonFinite"
  by (simp add: FLT_MAX_def float32_eval [of _ 128] round_even_def)

lemma float_of_int_samples:
  "float_of_int 0 = Num 0" "float_of_int 1 = Num 1" "float_of_int 2 = Num 2"
  "float_of_int 3 = Num 3" "float_of_int 400 = Num 400" "float_of_int 800 = Num 800"
  by (simp_all add: float_of_int_def float32_samples)

section \<open>The effect of each block\<close>

lemma setupViewport_eq:
  "setupViewport (width, height) s = s\<lparr>
      P := (P s)[0 := fdiv (fmul (P s ! 5) (float_of_int height)) (float_of_int width)],
      trace := trace s @ [GLFW GlfwGetWindowSize, GL (GlViewport 0 0 width height)]\<rparr>"
  by (simp add: setupViewport.simps call_def Let_def)

lemma push_tex_eq:
  "push_tex s = s\<lparr>trace := trace s @
      (if location_tex s = - 1 then [] else [GL (GlUniform1i (location_tex s) 0)])\<rparr>"
  by (simp add: push_tex_def call_def)

lemma push_time_eq:
  "push_time now s = s\<lparr>
      time := (if location_time s = - 1 then time s else now),
      trace := trace s @
        (if location_time s = - 1 then []
         else [GLFW GlfwGetTime, GL (GlUniform1f (location_time s) now)])\<rparr>"
  by (simp add: push_time_def call_def Let_def)

lemma modify_MV_eq:
  "modify_MV lib s = s\<lparr>
      R1 := mat4roty lib (phi (rotator s) * M_PI / Num 180),
      R2 := mat4rotx lib (theta (rotator s) * M_PI / Num 180),
      MV := mat4mult lib Tz (mat4mult lib (mat4rotx lib (theta (rotator s) * M_PI / Num 180))
                                         (mat4roty lib (phi (rotator s) * M_PI / Num 180))),
      trace := trace s @
        [Util (Mat4roty (phi (rotator s) * M_PI / Num 180)),
         Util (Mat4rotx (theta (rotator s) * M_PI / Num 180)),
         Util (Mat4mult (mat4rotx lib (theta (rotator s) * M_PI / Num 180))
                        (mat4roty lib (phi (rotator s) * M_PI / Num 180))),
         Util (Mat4mult Tz (mat4mult lib (mat4rotx lib (theta (rotator s) * M_PI / Num 180))
                                         (mat4roty lib (phi (rotator s) * M_PI / Num 180))))]\<rparr>"
  by (simp add: modify_MV_def call_def Let_def)

lemma push_MV_eq:
  "push_MV s = s\<lparr>trace := trace s @
      (if location_MV s = - 1 then []
       else [GL (GlUniformMatrix4fv (location_MV s) 1 False (MV s))])\<rparr>"
  by (simp add: push_MV_def call_def)

lemma push_P_eq:
  "push_P s = s\<lparr>trace := trace s @
      (if location_P s = - 1 then []
       else [GL (GlUniformMatrix4fv (location_P s) 1 False (P s))])\<rparr>"
  by (simp add: push_P_def call_def)

lemma draw_eq:
  "draw s = s\<lparr>trace := trace s @
      [GL (GlEnable GL_DEPTH_TEST), GL (GlEnable GL_CULL_FACE), GL (GlCullFace GL_BACK),
       Util SoupRender, GL (GlUseProgram 0), GLFW GlfwSwapBuffers]\<rparr>"
  by (simp add: draw_def call_def Let_def)

lemma reload_eq:
  "reload apple i s = s\<lparr>
      programObject := (if glfwGetKey_result i GLFW_KEY_SPACE = 0 then programObject s
                        else createShader_reload i),
      trace := trace s @ GLFW (GlfwGetKey GLFW_KEY_SPACE) #
        (if glfwGetKey_result i GLFW_KEY_SPACE = 0 then []
         else [GL (GlDeleteProgram (programObject s)),
               Util (CreateShader (VERTEXSHADERFILENAME apple)
                                  (FRAGMENTSHADERFILENAME apple))])\<rparr>"
  by (simp add: reload_def call_def Let_def)

lemma escape_eq:
  "escape i s = s\<lparr>
      shouldClose := (shouldClose s \<or> glfwGetKey_result i GLFW_KEY_ESCAPE \<noteq> 0),
      trace := trace s @ GLFW (GlfwGetKey GLFW_KEY_ESCAPE) #
        (if glfwGetKey_result i GLFW_KEY_ESCAPE = 0 then []
         else [GLFW (GlfwSetWindowShouldClose True)])\<rparr>"
  by (simp add: escape_def call_def Let_def)

lemmas block_eqs = setupViewport_eq push_tex_eq push_time_eq modify_MV_eq push_MV_eq
  push_P_eq draw_eq reload_eq escape_eq

lemma Tz_Translation: "Tz = Translation 0 0 (- 5)"
  by (simp add: Tz_def Translation_def)

section \<open>The effect of one iteration\<close>

lemma frame_fields:
  "fps (frame lib apple i s) = computeFPS_result i"
  "P (frame lib apple i s) = resized i s"
  "rotator (frame lib apple i s) = polled lib i s"
  "MV (frame lib apple i s) = composed lib (polled lib i s)"
  "R1 (frame lib apple i s) = mat4roty lib (phi (polled lib i s) * M_PI / Num 180)"
  "R2 (frame lib apple i s) = mat4rotx lib (theta (polled lib i s) * M_PI / Num 180)"
  "time (frame lib apple i s) = (if location_time s = - 1 then time s else glfwGetTime_result i)"
  "programObject (frame lib apple i s) =
     (if glfwGetKey_result i GLFW_KEY_SPACE = 0 then programObject s else createShader_reload i)"
  "shouldClose (frame lib apple i s) =
     (shouldClose s \<or> close_requested i \<or> glfwGetKey_result i GLFW_KEY_ESCAPE \<noteq> 0)"
  "location_tex (frame lib apple i s) = location_tex s"
  "location_time (frame lib apple i s) = location_time s"
  "location_MV (frame lib apple i s) = location_MV s"
  "location_P (frame lib apple i s) = location_P s"
  by (cases "glfwGetWindowSize_result i";
      simp add: frame_def Let_def block_eqs call_def polled_def composed_def resized_def
           Tz_Translation split del: if_split cong: if_cong)+

lemma trace_frame:
  "trace (frame lib apple i s) = trace s @
     [Util ComputeFPS,
      GL (GlClearColor (Num 0.3) (Num 0.3) (Num 0.3) (Num 0)),
      GL (GlClear [GL_COLOR_BUFFER_BIT, GL_DEPTH_BUFFER_BIT]),
      GLFW GlfwGetWindowSize,
      GL (GlViewport 0 0 (fst (glfwGetWindowSize_result i)) (snd (glfwGetWindowSize_result i))),
      Util PollRotatorMouse,
      GL (GlUseProgram (programObject s))] @
     (if location_tex s = - 1 then [] else [GL (GlUniform1i (location_tex s) 0)]) @
     (if location_time s = - 1 then []
      else [GLFW GlfwGetTime, GL (GlUniform1f (location_time s) (glfwGetTime_result i))]) @
     [Util (Mat4roty (phi (polled lib i s) * M_PI / Num 180)),
      Util (Mat4rotx (theta (polled lib i s) * M_PI / Num 180)),
      Util (Mat4mult (mat4rotx lib (theta (polled lib i s) * M_PI / Num 180))
                     (mat4roty lib (phi (polled lib i s) * M_PI / Num 180))),
      Util (Mat4mult Tz (mat4mult lib (mat4rotx lib (theta (polled lib i s) * M_PI / Num 180))
                                      (mat4roty lib (phi (polled lib i s) * M_PI / Num 180))))] @
     (if location_MV s = - 1 then []
      else [GL (GlUniformMatrix4fv (location_MV s) 1 False (composed lib (polled lib i s)))]) @
     (if location_P s = - 1 then []
      else [GL (GlUniformMatrix4fv (location_P s) 1 False (resized i s))]) @
     [GL (GlEnable GL_DEPTH_TEST), GL (GlEnable GL_CULL_FACE), GL (GlCullFace GL_BACK),
      Util SoupRender, GL (GlUseProgram 0), GLFW GlfwSwapBuffers,
      GLFW GlfwPollEvents,
      GLFW (GlfwGetKey GLFW_KEY_SPACE)] @
     (if glfwGetKey_result i GLFW_KEY_SPACE = 0 then []
      else [GL (GlDeleteProgram (programObject s)),
            Util (CreateShader (VERTEXSHADERFILENAME apple) (FRAGMENTSHADERFILENAME apple))]) @
     [GLFW (GlfwGetKey GLFW_KEY_ESCAPE)] @
     (if glfwGetKey_result i GLFW_KEY_ESCAPE = 0 then []
      else [GLFW (GlfwSetWindowShouldClose True)])"
  by (cases "glfwGetWindowSize_result i")
     (simp add: frame_def Let_def block_eqs call_def polled_def composed_def resized_def
           Tz_Translation split del: if_split cong: if_cong)

lemmas frame_calls_eq =
  frame_calls_def [of lib apple i s, unfolded trace_frame, simplified] for lib apple i s

lemmas sample_defs = sample_locals_def other_locals_def sample_rotator_def sample_frame_def
  sample_frames_def sample_env_def sample_locations_def no_keys_def space_key_def escape_key_def

lemmas ref_defs = ref_tnm084_def ref_mat4rotx_def ref_mat4roty_def ref_mat4mult_def

lemma polled_sample: "polled ref_tnm084 sample_frame sample_locals = sample_rotator"
  by (simp add: polled_def sample_defs ref_defs)

lemma composed_sample: "composed ref_tnm084 sample_rotator = Tz"
  by (simp add: composed_def sample_defs ref_defs Translation_def Tz_def M_PI_def)

lemma resized_sample: "resized sample_frame sample_locals = P_initial[0 := Num 2]"
  by (simp add: resized_def sample_defs P_initial_def float_of_int_samples float32_samples)

lemma P_sample:
  "P sample_locals = P_initial" "length P_initial = 16"
  "P_initial ! 5 = Num 4" "P_initial ! 0 = Num 4"
  by (simp_all add: sample_locals_def P_initial_def)

section \<open>The model-view matrix\<close>

text \<open>
  C1.  In every iteration the model-view matrix is built as
  \<open>Translation(0,0,-5) \<times> RotationX(elevation) \<times> RotationY(azimuth)\<close>, in that order
  of composition, from the rotator as it stands after the poll of this iteration:
  \<open>theta\<close> is the elevation and \<open>phi\<close> the azimuth, each converted from degrees to
  radians.  The same holds of the block of lines 230-234 on its own.
\<close>

theorem C1_model_view_composition:
  "MV (frame lib apple i s) =
     mat4mult lib (Translation 0 0 (- 5))
       (mat4mult lib (mat4rotx lib (theta (rotator (frame lib apple i s)) * M_PI / Num 180))
                     (mat4roty lib (phi (rotator (frame lib apple i s)) * M_PI / Num 180)))
   \<and> rotator (frame lib apple i s) = pollRotatorMouse lib (pointer i) (rotator s)
   \<and> MV (modify_MV lib s) =
     mat4mult lib (Translation 0 0 (- 5))
       (mat4mult lib (mat4rotx lib (theta (rotator s) * M_PI / Num 180))
                     (mat4roty lib (phi (rotator s) * M_PI / Num 180)))"
proof -
  have block: "MV (modify_MV lib t) =
      mat4mult lib Tz
        (mat4mult lib (mat4rotx lib (theta (rotator t) * M_PI / Num 180))
                      (mat4roty lib (phi (rotator t) * M_PI / Num 180)))" for t
    by (simp add: modify_MV_eq)
  have poll: "rotator (frame lib apple i s) = pollRotatorMouse lib (pointer i) (rotator s)"
    by (simp add: frame_fields polled_def)
  have "MV (frame lib apple i s) = composed lib (rotator (frame lib apple i s))"
    by (simp add: frame_fields)
  with block [of s] poll show ?thesis
    by (simp add: composed_def Tz_Translation)
qed

theorem C1_witness:
  "MV (frame ref_tnm084 False sample_frame sample_locals) = Translation 0 0 (- 5)"
  using C1_model_view_composition [of ref_tnm084 False sample_frame sample_locals]
  by (simp add: sample_defs ref_defs M_PI_def Translation_def)

text \<open>
  C7.  The model-view matrix that an iteration computes is a function of the two angles
  of the rotator, the azimuth \<open>phi\<close> and the elevation \<open>theta\<close>, and of nothing else: it
  is \<open>model_view\<close> of the two angles, for the block of lines 230-234 and for a whole
  iteration (with the angles as the poll of that iteration leaves them).  So two states
  with the same two angles give the same matrix, whatever the rest of the rotator (the
  pointer position, the buttons), the matrices, the projection, the clock and the other
  locals held before.  Computing it again changes nothing.
\<close>

theorem C7_model_view_depends_on_rotator_only:
  "MV (modify_MV lib s) = model_view lib (phi (rotator s)) (theta (rotator s))
   \<and> MV (frame lib apple i s) =
       model_view lib (phi (rotator (frame lib apple i s)))
         (theta (rotator (frame lib apple i s)))
   \<and> (phi (rotator s) = phi (rotator s') \<and> theta (rotator s) = theta (rotator s')
        \<longrightarrow> MV (modify_MV lib s) = MV (modify_MV lib s'))
   \<and> (phi (rotator (frame lib apple i s)) = phi (rotator (frame lib apple' i' s'))
        \<and> theta (rotator (frame lib apple i s)) = theta (rotator (frame lib apple' i' s'))
        \<longrightarrow> MV (frame lib apple i s) = MV (frame lib apple' i' s'))
   \<and> MV (modify_MV lib (modify_MV lib s)) = MV (modify_MV lib s)"
proof -
  have block: "MV (modify_MV lib t) = model_view lib (phi (rotator t)) (theta (rotator t))"
    for t
    by (simp add: modify_MV_eq model_view_def)
  have whole: "MV (frame lib a j t) =
      model_view lib (phi (rotator (frame lib a j t))) (theta (rotator (frame lib a j t)))"
    for a j t
    by (simp add: frame_fields composed_def model_view_def Tz_Translation)
  have again: "rotator (modify_MV lib s) = rotator s"
    by (simp add: modify_MV_eq)
  show ?thesis
  proof (intro conjI impI)
    show "MV (modify_MV lib s) = model_view lib (phi (rotator s)) (theta (rotator s))"
      by (rule block)
    show "MV (frame lib apple i s) =
        model_view lib (phi (rotator (frame lib apple i s)))
          (theta (rotator (frame lib apple i s)))"
      by (rule whole)
    show "MV (modify_MV lib (modify_MV lib s)) = MV (modify_MV lib s)"
      by (simp add: block again)
  next
    assume "phi (rotator s) = phi (rotator s') \<and> theta (rotator s) = theta (rotator s')"
    then show "MV (modify_MV lib s) = MV (modify_MV lib s')"
      by (simp add: block)
  next
    assume "phi (rotator (frame lib apple i s)) = phi (rotator (frame lib apple' i' s'))
        \<and> theta (rotator (frame lib apple i s)) = theta (rotator (frame lib apple' i' s'))"
    then show "MV (frame lib apple i s) = MV (frame lib apple' i' s')"
      by (simp add: whole)
  qed
qed

theorem C7_witness:
  "phi (rotator sample_locals) = phi (rotator moved_locals)
   \<and> theta (rotator sample_locals) = theta (rotator moved_locals)
   \<and> rotator sample_locals \<noteq> rotator moved_locals
   \<and> MV sample_locals \<noteq> MV moved_locals
   \<and> MV (modify_MV ref_tnm084 sample_locals) = MV (modify_MV ref_tnm084 moved_locals)"
proof -
  have angles: "phi (rotator sample_locals) = phi (rotator moved_locals)
      \<and> theta (rotator sample_locals) = theta (rotator moved_locals)"
    by (simp add: sample_defs moved_locals_def)
  have rest: "rotator sample_locals \<noteq> rotator moved_locals"
    "MV sample_locals \<noteq> MV moved_locals"
    by (simp_all add: sample_defs moved_locals_def)
  from angles have "MV (modify_MV ref_tnm084 sample_locals) =
      MV (modify_MV ref_tnm084 moved_locals)"
    using C7_model_view_depends_on_rotator_only
      [of ref_tnm084 sample_locals False sample_frame moved_locals False sample_frame]
    by blast
  with angles rest show ?thesis by blast
qed

section \<open>The viewport\<close>

text \<open>
  C2.  For a window of width \<open>w > 0\<close> and height \<open>h > 0\<close>, \<open>setupViewport\<close> stores in
  \<open>P[0]\<close> the value of the expression \<open>P[5] * height / width\<close> as C computes it: the two
  \<^verbatim>\<open>int\<close>s converted to \<^verbatim>\<open>float\<close>, the product and then the quotient each rounded
  to single precision.  It leaves \<open>P[5]\<close> and every other entry as it was; a whole
  iteration leaves \<open>P[5]\<close> as it was too.  Where the conversions, the product and the
  quotient are exact, the stored value is the number \<open>p * h / w\<close>; for a window of 800
  by 400 and \<open>P[5] = 4.0\<close> it is \<open>2.0\<close>.
\<close>

theorem C2_aspect_correction:
  assumes "length (P s) = 16" and "0 < w" and "0 < h"
  shows "P (setupViewport (w, h) s) ! 0 =
           fdiv (fmul (P s ! 5) (float_of_int h)) (float_of_int w)
    \<and> P (setupViewport (w, h) s) ! 5 = P s ! 5
    \<and> P (setupViewport (w, h) s) = (P s)[0 := P (setupViewport (w, h) s) ! 0]
    \<and> P (frame lib apple i s) ! 5 = P s ! 5
    \<and> (P s ! 5 = Num p
         \<and> float_of_int h = Num (real_of_int h) \<and> float_of_int w = Num (real_of_int w)
         \<and> float32 (p * real_of_int h) = Num (p * real_of_int h)
         \<and> float32 (p * real_of_int h / real_of_int w) = Num (p * real_of_int h / real_of_int w)
         \<longrightarrow> P (setupViewport (w, h) s) ! 0 = Num (p * real_of_int h / real_of_int w))
    \<and> (P s ! 5 = Num 4 \<and> w = 800 \<and> h = 400 \<longrightarrow> P (setupViewport (w, h) s) ! 0 = Num 2)"
proof (intro conjI impI)
  show stored: "P (setupViewport (w, h) s) ! 0 =
      fdiv (fmul (P s ! 5) (float_of_int h)) (float_of_int w)"
    using assms(1) by (simp add: setupViewport_eq)
  show "P (setupViewport (w, h) s) ! 5 = P s ! 5"
    by (simp add: setupViewport_eq)
  show "P (setupViewport (w, h) s) = (P s)[0 := P (setupViewport (w, h) s) ! 0]"
    using assms(1) by (simp add: setupViewport_eq)
  show "P (frame lib apple i s) ! 5 = P s ! 5"
    by (simp add: frame_fields resized_def)
  show "P (setupViewport (w, h) s) ! 0 = Num (p * real_of_int h / real_of_int w)"
    if "P s ! 5 = Num p
         \<and> float_of_int h = Num (real_of_int h) \<and> float_of_int w = Num (real_of_int w)
         \<and> float32 (p * real_of_int h) = Num (p * real_of_int h)
         \<and> float32 (p * real_of_int h / real_of_int w) = Num (p * real_of_int h / real_of_int w)"
    using that assms(2) stored by simp
  show "P (setupViewport (w, h) s) ! 0 = Num 2"
    if "P s ! 5 = Num 4 \<and> w = 800 \<and> h = 400"
    using that stored by (simp add: float_of_int_samples float32_samples)
qed

theorem C2_witness:
  "length (P sample_locals) = 16 \<and> P sample_locals ! 5 = Num 4
   \<and> P (setupViewport (800, 400) sample_locals) ! 0 = Num 2
   \<and> P (setupViewport (800, 400) sample_locals) ! 5 = Num 4
   \<and> P (setupViewport (3, 1) sample_locals) ! 0 = Num (11184811 / 8388608)"
  using C2_aspect_correction [of sample_locals 800 400 ref_tnm084 False sample_frame 4]
    C2_aspect_correction [of sample_locals 3 1 ref_tnm084 False sample_frame 4]
  by (simp add: P_sample float_of_int_samples float32_samples float32_four_thirds)

text \<open>
  C6 (as the code has it).  \<open>setupViewport\<close> divides by the converted width without
  testing it, for every reported size.  The divisor is zero exactly when the reported
  width is 0, and then \<open>P[0]\<close> becomes a non-finite value, whatever \<open>P[5]\<close> holds; a
  height of 0 is no divisor.  In every case the viewport is set to the reported size.
\<close>

theorem C6_division_is_unguarded:
  assumes "length (P s) = 16"
  shows "P (setupViewport (w, h) s) ! 0 =
           fdiv (fmul (P s ! 5) (float_of_int h)) (float_of_int w)
    \<and> (float_of_int w = Num 0 \<longleftrightarrow> w = 0)
    \<and> (w = 0 \<longrightarrow> P (setupViewport (w, h) s) ! 0 = NonFinite)
    \<and> trace (setupViewport (w, h) s) =
           trace s @ [GLFW GlfwGetWindowSize, GL (GlViewport 0 0 w h)]"
proof (intro conjI impI)
  show stored: "P (setupViewport (w, h) s) ! 0 =
      fdiv (fmul (P s ! 5) (float_of_int h)) (float_of_int w)"
    using assms by (simp add: setupViewport_eq)
  show "float_of_int w = Num 0 \<longleftrightarrow> w = 0"
    by (rule float_of_int_zero_iff)
  show "P (setupViewport (w, h) s) ! 0 = NonFinite" if "w = 0"
    using that stored by (simp add: float_of_int_samples fdiv_by_zero)
  show "trace (setupViewport (w, h) s) =
      trace s @ [GLFW GlfwGetWindowSize, GL (GlViewport 0 0 w h)]"
    by (simp add: setupViewport_eq)
qed

theorem C6_witness:
  "length (P sample_locals) = 16
   \<and> P (setupViewport (0, 400) sample_locals) ! 0 = NonFinite
   \<and> P (setupViewport (400, 0) sample_locals) ! 0 = Num 0
   \<and> P (setupViewport (1, 2) (sample_locals\<lparr>P := P_initial[5 := Num FLT_MAX]\<rparr>)) ! 0 = NonFinite"
  using C6_division_is_unguarded [of sample_locals 0 400]
    C6_division_is_unguarded [of sample_locals 400 0]
    C6_division_is_unguarded [of "sample_locals\<lparr>P := P_initial[5 := Num FLT_MAX]\<rparr>" 1 2]
  by (simp add: P_sample float_of_int_samples float32_samples float32_twice_FLT_MAX)

text \<open>
  The claim C6 as stated fails for a minimised window: the reported size 0 by 0 makes
  \<open>setupViewport\<close> divide \<open>4 * 0\<close> by zero, and the result is stored in \<open>P[0]\<close>.
\<close>

theorem C6_counterexample:
  "P sample_locals ! 0 = Num 4
   \<and> P (setupViewport (0, 0) sample_locals) ! 0 = NonFinite"
  by (simp add: setupViewport_eq P_sample float_of_int_samples fdiv_by_zero)

section \<open>The calls of one iteration\<close>

lemma sample_fields:
  "location_tex sample_locals = - 1" "location_time sample_locals = 2"
  "location_MV sample_locals = 0" "location_P sample_locals = 1"
  "programObject sample_locals = 1" "shouldClose sample_locals = False"
  "rotator sample_locals = sample_rotator" "rotator other_locals = sample_rotator"
  "phi sample_rotator = Num 0" "theta sample_rotator = Num 0"
  "glfwGetWindowSize_result sample_frame = (800, 400)"
  "glfwGetTime_result sample_frame = Num 1"
  "glfwGetKey_result sample_frame k = 0" "close_requested sample_frame = False"
  "mat4rotx ref_tnm084 = ref_mat4rotx" "mat4roty ref_tnm084 = ref_mat4roty"
  "mat4mult ref_tnm084 = ref_mat4mult"
  "Num 0 * M_PI / Num 180 = Num 0"
  by (simp_all add: sample_defs ref_tnm084_def M_PI_def)

lemma frame_calls_sample:
  "frame_calls ref_tnm084 False sample_frame sample_locals =
     [Util ComputeFPS,
      GL (GlClearColor (Num 0.3) (Num 0.3) (Num 0.3) (Num 0)),
      GL (GlClear [GL_COLOR_BUFFER_BIT, GL_DEPTH_BUFFER_BIT]),
      GLFW GlfwGetWindowSize,
      GL (GlViewport 0 0 800 400),
      Util PollRotatorMouse,
      GL (GlUseProgram 1),
      GLFW GlfwGetTime,
      GL (GlUniform1f 2 (Num 1)),
      Util (Mat4roty (Num 0)),
      Util (Mat4rotx (Num 0)),
      Util (Mat4mult (ref_mat4rotx (Num 0)) (ref_mat4roty (Num 0))),
      Util (Mat4mult Tz (ref_mat4mult (ref_mat4rotx (Num 0)) (ref_mat4roty (Num 0)))),
      GL (GlUniformMatrix4fv 0 1 False Tz),
      GL (GlUniformMatrix4fv 1 1 False (P_initial[0 := Num 2])),
      GL (GlEnable GL_DEPTH_TEST), GL (GlEnable GL_CULL_FACE), GL (GlCullFace GL_BACK),
      Util SoupRender, GL (GlUseProgram 0), GLFW GlfwSwapBuffers,
      GLFW GlfwPollEvents,
      GLFW (GlfwGetKey GLFW_KEY_SPACE),
      GLFW (GlfwGetKey GLFW_KEY_ESCAPE)]"
  by (simp add: frame_calls_eq polled_sample composed_sample resized_sample sample_fields)

text \<open>
  C3.  In every iteration the calls that set a uniform are, in this order, one for each
  of \<open>tex\<close>, \<open>time\<close>, \<open>MV\<close> and \<open>P\<close> whose cached location is not \<open>-1\<close>, and none
  for a uniform whose cached location is \<open>-1\<close>: no call ever names the location \<open>-1\<close>,
  and the clock is read only when \<open>time\<close> is present.  A skipped update is not an
  error: the iteration goes on to draw and to swap the buffers, and the close flag
  afterwards does not depend on the locations.
\<close>

theorem C3_absent_uniform_is_skipped:
  "filter is_upload (frame_calls lib apple i s) =
     (if location_tex s = - 1 then [] else [GL (GlUniform1i (location_tex s) 0)]) @
     (if location_time s = - 1 then []
      else [GL (GlUniform1f (location_time s) (glfwGetTime_result i))]) @
     (if location_MV s = - 1 then []
      else [GL (GlUniformMatrix4fv (location_MV s) 1 False (MV (frame lib apple i s)))]) @
     (if location_P s = - 1 then []
      else [GL (GlUniformMatrix4fv (location_P s) 1 False (P (frame lib apple i s)))])
   \<and> (\<forall>c \<in> set (frame_calls lib apple i s). upload_location c \<noteq> Some (- 1))
   \<and> (GLFW GlfwGetTime \<in> set (frame_calls lib apple i s) \<longleftrightarrow> location_time s \<noteq> - 1)
   \<and> Util SoupRender \<in> set (frame_calls lib apple i s)
   \<and> GLFW GlfwSwapBuffers \<in> set (frame_calls lib apple i s)
   \<and> shouldClose (frame lib apple i s) =
       (shouldClose s \<or> close_requested i \<or> glfwGetKey_result i GLFW_KEY_ESCAPE \<noteq> 0)"
proof (intro conjI)
  show "filter is_upload (frame_calls lib apple i s) =
     (if location_tex s = - 1 then [] else [GL (GlUniform1i (location_tex s) 0)]) @
     (if location_time s = - 1 then []
      else [GL (GlUniform1f (location_time s) (glfwGetTime_result i))]) @
     (if location_MV s = - 1 then []
      else [GL (GlUniformMatrix4fv (location_MV s) 1 False (MV (frame lib apple i s)))]) @
     (if location_P s = - 1 then []
      else [GL (GlUniformMatrix4fv (location_P s) 1 False (P (frame lib apple i s)))])"
    by (simp add: frame_calls_eq frame_fields)
  show "\<forall>c \<in> set (frame_calls lib apple i s). upload_location c \<noteq> Some (- 1)"
    by (simp add: frame_calls_eq)
  show "GLFW GlfwGetTime \<in> set (frame_calls lib apple i s) \<longleftrightarrow> location_time s \<noteq> - 1"
    by (simp add: frame_calls_eq)
  show "Util SoupRender \<in> set (frame_calls lib apple i s)"
    and "GLFW GlfwSwapBuffers \<in> set (frame_calls lib apple i s)"
    by (simp_all add: frame_calls_eq)
  show "shouldClose (frame lib apple i s) =
       (shouldClose s \<or> close_requested i \<or> glfwGetKey_result i GLFW_KEY_ESCAPE \<noteq> 0)"
    by (simp add: frame_fields)
qed

theorem C3_witness:
  "location_tex sample_locals = - 1
   \<and> filter is_upload (frame_calls ref_tnm084 False sample_frame sample_locals) =
       [GL (GlUniform1f 2 (Num 1)),
        GL (GlUniformMatrix4fv 0 1 False (MV (frame ref_tnm084 False sample_frame sample_locals))),
        GL (GlUniformMatrix4fv 1 1 False (P (frame ref_tnm084 False sample_frame sample_locals)))]
   \<and> Util SoupRender \<in> set (frame_calls ref_tnm084 False sample_frame sample_locals)"
  using C3_absent_uniform_is_skipped [of ref_tnm084 False sample_frame sample_locals]
  by (simp add: sample_fields)

text \<open>
  C8 (as the code has it).  The calls of every iteration, in the order in which they are
  made: the frame rate and the clearing of the buffers; the viewport (the window size is
  read, \<open>P[0]\<close> recomputed, the viewport set); then the poll of the rotator, which reads
  the mouse and updates the rotation state; the shader is bound; the uniforms \<open>tex\<close> and
  \<open>time\<close> are set when present; the model-view matrix is computed; the uniforms \<open>MV\<close>
  and \<open>P\<close> are set when present; the mesh is drawn; the buffers are swapped; the events
  are polled; the space bar and the escape key are tested.
\<close>

theorem C8_order_of_an_iteration:
  "frame_calls lib apple i s =
     [Util ComputeFPS,
      GL (GlClearColor (Num 0.3) (Num 0.3) (Num 0.3) (Num 0)),
      GL (GlClear [GL_COLOR_BUFFER_BIT, GL_DEPTH_BUFFER_BIT]),
      GLFW GlfwGetWindowSize,
      GL (GlViewport 0 0 (fst (glfwGetWindowSize_result i)) (snd (glfwGetWindowSize_result i))),
      Util PollRotatorMouse,
      GL (GlUseProgram (programObject s))] @
     (if location_tex s = - 1 then [] else [GL (GlUniform1i (location_tex s) 0)]) @
     (if location_time s = - 1 then []
      else [GLFW GlfwGetTime, GL (GlUniform1f (location_time s) (glfwGetTime_result i))]) @
     [Util (Mat4roty (phi (polled lib i s) * M_PI / Num 180)),
      Util (Mat4rotx (theta (polled lib i s) * M_PI / Num 180)),
      Util (Mat4mult (mat4rotx lib (theta (polled lib i s) * M_PI / Num 180))
                     (mat4roty lib (phi (polled lib i s) * M_PI / Num 180))),
      Util (Mat4mult Tz (mat4mult lib (mat4rotx lib (theta (polled lib i s) * M_PI / Num 180))
                                      (mat4roty lib (phi (polled lib i s) * M_PI / Num 180))))] @
     (if location_MV s = - 1 then []
      else [GL (GlUniformMatrix4fv (location_MV s) 1 False (MV (frame lib apple i s)))]) @
     (if location_P s = - 1 then []
      else [GL (GlUniformMatrix4fv (location_P s) 1 False (P (frame lib apple i s)))]) @
     [GL (GlEnable GL_DEPTH_TEST), GL (GlEnable GL_CULL_FACE), GL (GlCullFace GL_BACK),
      Util SoupRender, GL (GlUseProgram 0), GLFW GlfwSwapBuffers,
      GLFW GlfwPollEvents,
      GLFW (GlfwGetKey GLFW_KEY_SPACE)] @
     (if glfwGetKey_result i GLFW_KEY_SPACE = 0 then []
      else [GL (GlDeleteProgram (programObject s)),
            Util (CreateShader (VERTEXSHADERFILENAME apple) (FRAGMENTSHADERFILENAME apple))]) @
     [GLFW (GlfwGetKey GLFW_KEY_ESCAPE)] @
     (if glfwGetKey_result i GLFW_KEY_ESCAPE = 0 then []
      else [GLFW (GlfwSetWindowShouldClose True)])"
  by (simp add: frame_calls_eq frame_fields split del: if_split cong: if_cong)

theorem C8_witness:
  "before (GLFW GlfwGetWindowSize) (GL (GlViewport 0 0 800 400))
     (frame_calls ref_tnm084 False sample_frame sample_locals)
   \<and> before (GL (GlViewport 0 0 800 400)) (Util PollRotatorMouse)
     (frame_calls ref_tnm084 False sample_frame sample_locals)
   \<and> before (Util PollRotatorMouse) (Util (Mat4roty (Num 0)))
     (frame_calls ref_tnm084 False sample_frame sample_locals)
   \<and> before (Util (Mat4roty (Num 0))) (Util SoupRender)
     (frame_calls ref_tnm084 False sample_frame sample_locals)
   \<and> before (Util SoupRender) (GLFW GlfwSwapBuffers)
     (frame_calls ref_tnm084 False sample_frame sample_locals)
   \<and> before (GLFW GlfwSwapBuffers) (GLFW GlfwPollEvents)
     (frame_calls ref_tnm084 False sample_frame sample_locals)
   \<and> before (GLFW GlfwPollEvents) (GLFW (GlfwGetKey GLFW_KEY_SPACE))
     (frame_calls ref_tnm084 False sample_frame sample_locals)"
  using C8_order_of_an_iteration [of ref_tnm084 False sample_frame sample_locals]
  by (simp add: before_def polled_sample sample_fields)

text \<open>
  The claim C8 as stated fails in every iteration; here in one: the viewport is set
  before the rotator is polled, the rotator is not polled before the window size is read
  or the viewport set, and the events are not polled before them either.
\<close>

theorem C8_counterexample:
  "before (GL (GlViewport 0 0 800 400)) (Util PollRotatorMouse)
     (frame_calls ref_tnm084 False sample_frame sample_locals)
   \<and> \<not> before (Util PollRotatorMouse) (GLFW GlfwGetWindowSize)
     (frame_calls ref_tnm084 False sample_frame sample_locals)
   \<and> \<not> before (Util PollRotatorMouse) (GL (GlViewport 0 0 800 400))
     (frame_calls ref_tnm084 False sample_frame sample_locals)
   \<and> \<not> before (GLFW GlfwPollEvents) (GL (GlViewport 0 0 800 400))
     (frame_calls ref_tnm084 False sample_frame sample_locals)"
  by (simp add: frame_calls_sample before_def)

section \<open>The render loop\<close>

lemma call_fields:
  "trace (call c s) = trace s @ [c]"
  "shouldClose (call c s) = shouldClose s"
  "programObject (call c s) = programObject s"
  "location_tex (call c s) = location_tex s"
  "location_time (call c s) = location_time s"
  "location_MV (call c s) = location_MV s"
  "location_P (call c s) = location_P s"
  "rotator (call c s) = rotator s"
  "P (call c s) = P s"
  by (simp_all add: call_def)

lemma frame_calls_call: "frame_calls lib apple i (call c s) = frame_calls lib apple i s"
  by (simp add: frame_calls_eq polled_def resized_def call_fields)

lemma trace_frame_calls: "trace (frame lib apple i s) = trace s @ frame_calls lib apple i s"
  by (simp add: frame_calls_def trace_frame)

lemma render_loop_extends: "\<exists>cs. trace (fst (render_loop lib apple ins s)) = trace s @ cs"
proof (induction ins arbitrary: s)
  case Nil
  show ?case by (simp add: Let_def call_fields)
next
  case (Cons i ins)
  show ?case
  proof (cases "shouldClose s")
    case True
    then show ?thesis by (simp add: Let_def call_fields)
  next
    case False
    obtain cs where "trace (fst (render_loop lib apple ins
        (frame lib apple i (call (GLFW GlfwWindowShouldClose) s)))) =
        trace (frame lib apple i (call (GLFW GlfwWindowShouldClose) s)) @ cs"
      using Cons.IH by blast
    with False show ?thesis
      by (simp add: Let_def call_fields trace_frame_calls)
  qed
qed

lemma trace_render_loop:
  "trace (fst (render_loop lib apple ins s)) = trace s @ loop_calls lib apple ins s"
  using render_loop_extends [of lib apple ins s] by (auto simp add: loop_calls_def)

lemma loop_calls_Nil: "loop_calls lib apple [] s = [GLFW GlfwWindowShouldClose]"
  by (simp add: loop_calls_def Let_def call_fields)

lemma loop_calls_Cons:
  "loop_calls lib apple (i # ins) s =
     GLFW GlfwWindowShouldClose #
     (if shouldClose s then []
      else frame_calls lib apple i s @
           loop_calls lib apple ins (frame lib apple i (call (GLFW GlfwWindowShouldClose) s)))"
proof (cases "shouldClose s")
  case True
  then show ?thesis by (simp add: loop_calls_def Let_def call_fields)
next
  case False
  have "trace (fst (render_loop lib apple (i # ins) s)) =
      trace (frame lib apple i (call (GLFW GlfwWindowShouldClose) s)) @
      loop_calls lib apple ins (frame lib apple i (call (GLFW GlfwWindowShouldClose) s))"
    using False by (simp add: Let_def call_fields trace_render_loop)
  then show ?thesis
    using False
    by (simp add: loop_calls_def [of lib apple "i # ins" s] trace_frame_calls call_fields
          frame_calls_call)
qed

lemma render_loop_left_at_once: "shouldClose s \<Longrightarrow> snd (render_loop lib apple ins s)"
  by (cases ins) (simp_all add: Let_def call_fields)

lemma render_loop_left:
  "\<exists>i \<in> set ins. close_requested i \<or> glfwGetKey_result i GLFW_KEY_ESCAPE \<noteq> 0
   \<Longrightarrow> snd (render_loop lib apple ins s)"
proof (induction ins arbitrary: s)
  case Nil
  then show ?case by simp
next
  case (Cons i ins)
  show ?case
  proof (cases "shouldClose s")
    case True
    then show ?thesis by (rule render_loop_left_at_once)
  next
    case False
    show ?thesis
    proof (cases "close_requested i \<or> glfwGetKey_result i GLFW_KEY_ESCAPE \<noteq> 0")
      case True
      then have "shouldClose (frame lib apple i (call (GLFW GlfwWindowShouldClose) s))"
        by (auto simp add: frame_fields)
      then show ?thesis
        using False by (simp add: Let_def call_fields render_loop_left_at_once)
    next
      case False
      with Cons.prems have "\<exists>i \<in> set ins.
          close_requested i \<or> glfwGetKey_result i GLFW_KEY_ESCAPE \<noteq> 0"
        by auto
      then show ?thesis
        using \<open>\<not> shouldClose s\<close> by (simp add: Let_def call_fields Cons.IH)
    qed
  qed
qed

lemma render_loop_locations:
  "location_tex (fst (render_loop lib apple ins s)) = location_tex s
   \<and> location_time (fst (render_loop lib apple ins s)) = location_time s
   \<and> location_MV (fst (render_loop lib apple ins s)) = location_MV s
   \<and> location_P (fst (render_loop lib apple ins s)) = location_P s"
  by (induction ins arbitrary: s) (simp_all add: Let_def call_fields frame_fields)

lemma frame_calls_filters:
  "filter is_location_query (frame_calls lib apple i s) = []"
  "filter is_mesh_source (frame_calls lib apple i s) = []"
  "filter is_delete (frame_calls lib apple i s) =
     (if space_down i then [GL (GlDeleteProgram (programObject s))] else [])"
  "filter is_compile (frame_calls lib apple i s) =
     (if space_down i
      then [Util (CreateShader (VERTEXSHADERFILENAME apple) (FRAGMENTSHADERFILENAME apple))]
      else [])"
  "concat (map files_named (frame_calls lib apple i s)) =
     (if space_down i then [VERTEXSHADERFILENAME apple, FRAGMENTSHADERFILENAME apple] else [])"
  by (simp_all add: frame_calls_eq space_down_def)

lemma frame_calls_files:
  "(\<Union>c \<in> set (frame_calls lib apple i s). set (files_named c))
     \<subseteq> {VERTEXSHADERFILENAME apple, FRAGMENTSHADERFILENAME apple}"
proof -
  have "set (concat (map files_named (frame_calls lib apple i s)))
     \<subseteq> {VERTEXSHADERFILENAME apple, FRAGMENTSHADERFILENAME apple}"
    unfolding frame_calls_filters by auto
  then show ?thesis by simp
qed

lemma loop_calls_filters:
  "filter is_location_query (loop_calls lib apple ins s) = []"
  "filter is_mesh_source (loop_calls lib apple ins s) = []"
  "set (concat (map files_named (loop_calls lib apple ins s)))
     \<subseteq> {VERTEXSHADERFILENAME apple, FRAGMENTSHADERFILENAME apple}"
  by (induction ins arbitrary: s;
      simp add: loop_calls_Nil loop_calls_Cons frame_calls_filters frame_calls_files)+

lemma loop_calls_reloads:
  "length (filter is_delete (loop_calls lib apple ins s)) =
     length (filter space_down (frames_run lib apple ins s))
   \<and> length (filter is_compile (loop_calls lib apple ins s)) =
     length (filter space_down (frames_run lib apple ins s))"
  by (induction ins arbitrary: s)
     (simp_all add: loop_calls_Nil loop_calls_Cons frame_calls_filters Let_def call_fields)

section \<open>Start-up and shutdown\<close>

lemma preamble_eq:
  "preamble lib e = (indeterminate e)\<lparr>
      fps := Num 0,
      rotator := initRotatorMouse lib (rotator (indeterminate e)),
      trace := [Util InitRotatorMouse, GLFW GlfwInit]\<rparr>"
  by (simp add: preamble_def Let_def call_def)

lemma hints_eq:
  "hints s = s\<lparr>trace := trace s @
      [GLFW GlfwGetPrimaryMonitor, GLFW GlfwGetVideoMode,
       GLFW (GlfwWindowHint GLFW_CONTEXT_VERSION_MAJOR (Number 3)),
       GLFW (GlfwWindowHint GLFW_CONTEXT_VERSION_MINOR (Number 3)),
       GLFW (GlfwWindowHint GLFW_OPENGL_FORWARD_COMPAT GL_TRUE),
       GLFW (GlfwWindowHint GLFW_OPENGL_PROFILE GLFW_OPENGL_CORE_PROFILE)]\<rparr>"
  by (simp add: hints_def Let_def call_def)

lemma startup_eq:
  "startup e vidmode s = s\<lparr>
      P := P_initial,
      programObject := createShader_result e,
      location_MV := glGetUniformLocation_result e (createShader_result e) ''MV'',
      location_P := glGetUniformLocation_result e (createShader_result e) ''P'',
      location_time := glGetUniformLocation_result e (createShader_result e) ''time'',
      location_tex := glGetUniformLocation_result e (createShader_result e) ''tex'',
      trace := trace s @
        [GLFW GlfwMakeContextCurrent, GLFW (GlfwSwapInterval 0), Util LoadExtensions,
         GL (GlGetString GL_VENDOR),
         Printf ''GL vendor:       %s\<newline>'' [Str (glGetString_result e GL_VENDOR)],
         GL (GlGetString GL_RENDERER),
         Printf ''GL renderer:     %s\<newline>'' [Str (glGetString_result e GL_RENDERER)],
         GL (GlGetString GL_VERSION),
         Printf ''GL version:      %s\<newline>'' [Str (glGetString_result e GL_VERSION)],
         Printf ''Desktop size:    %d x %d pixels\<newline>'' [Dec (fst vidmode), Dec (snd vidmode)],
         Util SoupInit, Util (SoupCreateSphere (Num 1) 50), Util SoupPrintInfo,
         GL (GlEnable GL_TEXTURE_2D),
         Util (CreateTexture (TEXTUREFILENAME (APPLE e))),
         Util (CreateShader (VERTEXSHADERFILENAME (APPLE e)) (FRAGMENTSHADERFILENAME (APPLE e))),
         GL (GlGetUniformLocation (createShader_result e) ''MV''),
         GL (GlGetUniformLocation (createShader_result e) ''P''),
         GL (GlGetUniformLocation (createShader_result e) ''time''),
         GL (GlGetUniformLocation (createShader_result e) ''tex'')]\<rparr>"
  by (simp add: startup_def Let_def call_def)

lemma loop_entry_fields:
  "location_MV (loop_entry lib e v) = glGetUniformLocation_result e (createShader_result e) ''MV''"
  "location_P (loop_entry lib e v) = glGetUniformLocation_result e (createShader_result e) ''P''"
  "location_time (loop_entry lib e v) =
     glGetUniformLocation_result e (createShader_result e) ''time''"
  "location_tex (loop_entry lib e v) = glGetUniformLocation_result e (createShader_result e) ''tex''"
  "programObject (loop_entry lib e v) = createShader_result e"
  "shouldClose (loop_entry lib e v) = False"
  "P (loop_entry lib e v) = P_initial"
  "rotator (loop_entry lib e v) = initRotatorMouse lib (rotator (indeterminate e))"
  by (simp_all add: loop_entry_def startup_eq open_window_def hints_eq preamble_eq call_def)

lemma loop_entry_trace:
  "filter is_location_query (trace (loop_entry lib e v)) =
     [GL (GlGetUniformLocation (createShader_result e) ''MV''),
      GL (GlGetUniformLocation (createShader_result e) ''P''),
      GL (GlGetUniformLocation (createShader_result e) ''time''),
      GL (GlGetUniformLocation (createShader_result e) ''tex'')]"
  "filter is_mesh_source (trace (loop_entry lib e v)) = [Util (SoupCreateSphere (Num 1) 50)]"
  "concat (map files_named (trace (loop_entry lib e v))) =
     [TEXTUREFILENAME (APPLE e), VERTEXSHADERFILENAME (APPLE e), FRAGMENTSHADERFILENAME (APPLE e)]"
  by (simp_all add: loop_entry_def startup_eq open_window_def hints_eq preamble_eq call_def)

lemma run_outcome:
  "snd (run lib e s) = (if snd (render_loop lib (APPLE e) (frames e) s) then Exit 0 else Running)"
  by (simp add: run_def Let_def case_prod_beta)

lemma run_trace:
  "trace (fst (run lib e s)) =
     trace s @ loop_calls lib (APPLE e) (frames e) s @
     (if snd (render_loop lib (APPLE e) (frames e) s)
      then [GLFW GlfwDestroyWindow, GLFW GlfwTerminate] else [])"
  using trace_render_loop [of lib "APPLE e" "frames e" s]
  by (simp add: run_def Let_def case_prod_beta call_fields)

lemma run_locations:
  "location_tex (fst (run lib e s)) = location_tex s"
  "location_time (fst (run lib e s)) = location_time s"
  "location_MV (fst (run lib e s)) = location_MV s"
  "location_P (fst (run lib e s)) = location_P s"
  using render_loop_locations [of lib "APPLE e" "frames e" s]
  by (simp_all add: run_def Let_def case_prod_beta call_fields)

lemma main_not_initialised:
  "glfwInit_result e = 0 \<Longrightarrow>
   snd (main lib e) = Exit (- 1) \<and>
   trace (fst (main lib e)) =
     [Util InitRotatorMouse, GLFW GlfwInit,
      Printf ''Failed to initialise GLFW. Exiting.\<newline>'' []]"
  by (simp add: main_def Let_def preamble_eq call_def)

lemma main_no_vidmode:
  "glfwInit_result e \<noteq> 0 \<Longrightarrow> glfwGetVideoMode_result e = None \<Longrightarrow>
   main lib e = (hints (preamble lib e), NullPointer)"
  by (simp add: main_def Let_def)

lemma main_no_window:
  "glfwInit_result e \<noteq> 0 \<Longrightarrow> glfwGetVideoMode_result e = Some v \<Longrightarrow>
   glfwCreateWindow_result e = None \<Longrightarrow>
   main lib e =
     (call (GLFW GlfwTerminate)
        (call (Printf ''Failed to open GLFW window. Exiting.\<newline>'' [])
           (open_window v (hints (preamble lib e)))), Exit (- 1))"
  by (simp add: main_def Let_def)

lemma main_started:
  "glfwInit_result e \<noteq> 0 \<Longrightarrow> glfwGetVideoMode_result e = Some v \<Longrightarrow>
   glfwCreateWindow_result e = Some w \<Longrightarrow>
   main lib e = run lib e (loop_entry lib e v)"
  by (simp add: main_def Let_def loop_entry_def)

lemma run_programObject:
  "programObject (fst (run lib e s)) =
     programObject (fst (render_loop lib (APPLE e) (frames e) s))"
  by (simp add: run_def Let_def case_prod_beta call_fields)

lemma main_outcome:
  "snd (main lib e) =
     (if glfwInit_result e = 0 then Exit (- 1)
      else if glfwGetVideoMode_result e = None then NullPointer
      else if glfwCreateWindow_result e = None then Exit (- 1)
      else if snd (render_loop lib (APPLE e) (frames e)
                     (loop_entry lib e (the (glfwGetVideoMode_result e))))
      then Exit 0 else Running)"
  by (auto simp add: main_not_initialised main_no_vidmode main_no_window main_started
        run_outcome)

lemma main_mesh_and_files:
  "filter is_mesh_source (trace (fst (main lib e))) =
     (if glfwInit_result e \<noteq> 0 \<and> glfwGetVideoMode_result e \<noteq> None
         \<and> glfwCreateWindow_result e \<noteq> None
      then [Util (SoupCreateSphere (Num 1) 50)] else [])
   \<and> set (concat (map files_named (trace (fst (main lib e)))))
       \<subseteq> {TEXTUREFILENAME (APPLE e), VERTEXSHADERFILENAME (APPLE e),
          FRAGMENTSHADERFILENAME (APPLE e)}"
proof (cases "glfwInit_result e = 0")
  case True
  then show ?thesis by (simp add: main_not_initialised)
next
  case init: False
  show ?thesis
  proof (cases "glfwGetVideoMode_result e")
    case None
    with init show ?thesis
      by (simp add: main_no_vidmode hints_eq preamble_eq)
  next
    case (Some v)
    show ?thesis
    proof (cases "glfwCreateWindow_result e")
      case None
      with init Some show ?thesis
        by (simp add: main_no_window hints_eq preamble_eq open_window_def call_def)
    next
      case window: (Some w)
      have "set (concat (map files_named (loop_calls lib (APPLE e) (frames e)
                (loop_entry lib e v))))
          \<subseteq> {VERTEXSHADERFILENAME (APPLE e), FRAGMENTSHADERFILENAME (APPLE e)}"
        by (rule loop_calls_filters)
      then have "(\<Union>c \<in> set (loop_calls lib (APPLE e) (frames e) (loop_entry lib e v)).
            set (files_named c))
          \<subseteq> {TEXTUREFILENAME (APPLE e), VERTEXSHADERFILENAME (APPLE e),
             FRAGMENTSHADERFILENAME (APPLE e)}"
        by auto
      moreover have "(\<Union>c \<in> set (trace (loop_entry lib e v)). set (files_named c))
          \<subseteq> {TEXTUREFILENAME (APPLE e), VERTEXSHADERFILENAME (APPLE e),
             FRAGMENTSHADERFILENAME (APPLE e)}"
        using loop_entry_trace(3) [of lib e v, THEN arg_cong, of set] by simp
      ultimately show ?thesis
        using init Some window
        by (auto simp add: main_started run_trace loop_entry_trace loop_calls_filters)
    qed
  qed
qed

lemma mesh_file_is_no_other:
  "MESHFILENAME a \<noteq> TEXTUREFILENAME a" "MESHFILENAME a \<noteq> VERTEXSHADERFILENAME a"
  "MESHFILENAME a \<noteq> FRAGMENTSHADERFILENAME a"
  by (simp_all add: MESHFILENAME_def TEXTUREFILENAME_def VERTEXSHADERFILENAME_def
        FRAGMENTSHADERFILENAME_def)

lemma main_reads_no_mesh:
  "Util (SoupReadOBJ f) \<notin> set (trace (fst (main lib e)))"
proof
  assume "Util (SoupReadOBJ f) \<in> set (trace (fst (main lib e)))"
  then have "Util (SoupReadOBJ f) \<in> set (filter is_mesh_source (trace (fst (main lib e))))"
    by simp
  then show False
    by (simp add: main_mesh_and_files split: if_splits)
qed

lemma main_location_queries:
  "filter is_location_query (trace (fst (main lib e))) =
     (if glfwInit_result e \<noteq> 0 \<and> glfwGetVideoMode_result e \<noteq> None
         \<and> glfwCreateWindow_result e \<noteq> None
      then [GL (GlGetUniformLocation (createShader_result e) ''MV''),
            GL (GlGetUniformLocation (createShader_result e) ''P''),
            GL (GlGetUniformLocation (createShader_result e) ''time''),
            GL (GlGetUniformLocation (createShader_result e) ''tex'')]
      else [])"
proof (cases "glfwInit_result e = 0")
  case True
  then show ?thesis by (simp add: main_not_initialised)
next
  case init: False
  show ?thesis
  proof (cases "glfwGetVideoMode_result e")
    case None
    with init show ?thesis
      by (simp add: main_no_vidmode hints_eq preamble_eq)
  next
    case (Some v)
    show ?thesis
    proof (cases "glfwCreateWindow_result e")
      case None
      with init Some show ?thesis
        by (simp add: main_no_window hints_eq preamble_eq open_window_def call_def)
    next
      case window: (Some w)
      with init Some show ?thesis
        by (simp add: main_started run_trace loop_entry_trace loop_calls_filters)
    qed
  qed
qed

lemma sample_env_fields:
  "APPLE sample_env = False" "glfwInit_result sample_env = 1"
  "glfwGetVideoMode_result sample_env = Some (1600, 800)"
  "glfwCreateWindow_result sample_env = Some 1"
  "createShader_result sample_env = 1"
  "glGetUniformLocation_result sample_env = sample_locations"
  "frames sample_env = sample_frames"
  "sample_locations p ''MV'' = 0" "sample_locations p ''P'' = 1"
  "sample_locations p ''time'' = 2" "sample_locations p ''tex'' = - 1"
  by (simp_all add: sample_env_def sample_locations_def)

lemma sample_frames_fields:
  "\<exists>i \<in> set sample_frames. close_requested i \<or> glfwGetKey_result i GLFW_KEY_ESCAPE \<noteq> 0"
  "map (\<lambda>i. glfwGetKey_result i GLFW_KEY_SPACE) sample_frames = [1, 1, 0]"
  "filter space_down sample_frames = take 2 sample_frames"
  "length sample_frames = 3"
  by (simp_all add: sample_frames_def sample_frame_def space_key_def escape_key_def
        space_down_def)

lemma sample_run:
  assumes "\<not> shouldClose s"
  shows "frames_run ref_tnm084 False sample_frames s = sample_frames"
    and "programObject (fst (render_loop ref_tnm084 False sample_frames s)) = 3"
    and "snd (render_loop ref_tnm084 False sample_frames s)"
  using assms
  by (simp_all add: sample_frames_def sample_frame_def space_key_def escape_key_def
        Let_def call_fields frame_fields)

section \<open>Exit status\<close>

text \<open>
  C4.  \<^verbatim>\<open>main\<close> returns \<open>-1\<close> after printing a message when \<^verbatim>\<open>glfwInit\<close> fails
  (nothing else is called) and when the window cannot be created (the message, then
  \<^verbatim>\<open>glfwTerminate\<close>).  When both succeed, a run that ends returns 0, and its last two
  calls destroy the window and terminate GLFW; it ends as soon as one iteration sees the
  escape key or a request to close the window.  0 is returned in no other case, and no
  status other than 0 and \<open>-1\<close> is ever returned.
\<close>

theorem C4_exit_status:
  "(glfwInit_result e = 0 \<longrightarrow>
      snd (main lib e) = Exit (- 1) \<and>
      trace (fst (main lib e)) =
        [Util InitRotatorMouse, GLFW GlfwInit,
         Printf ''Failed to initialise GLFW. Exiting.\<newline>'' []])
   \<and> (glfwInit_result e \<noteq> 0 \<and> glfwGetVideoMode_result e \<noteq> None
        \<and> glfwCreateWindow_result e = None \<longrightarrow>
      snd (main lib e) = Exit (- 1) \<and>
      suffix [Printf ''Failed to open GLFW window. Exiting.\<newline>'' [], GLFW GlfwTerminate]
        (trace (fst (main lib e))))
   \<and> (glfwInit_result e \<noteq> 0 \<and> glfwGetVideoMode_result e \<noteq> None
        \<and> glfwCreateWindow_result e \<noteq> None \<longrightarrow>
      (snd (main lib e) = Exit 0 \<and>
       suffix [GLFW GlfwDestroyWindow, GLFW GlfwTerminate] (trace (fst (main lib e))))
      \<or> snd (main lib e) = Running)
   \<and> ((\<exists>i \<in> set (frames e). close_requested i \<or> glfwGetKey_result i GLFW_KEY_ESCAPE \<noteq> 0)
        \<longrightarrow> snd (main lib e) \<noteq> Running)
   \<and> (snd (main lib e) = Exit 0 \<longrightarrow>
        glfwInit_result e \<noteq> 0 \<and> glfwCreateWindow_result e \<noteq> None)
   \<and> (\<forall>n. snd (main lib e) = Exit n \<longrightarrow> n = 0 \<or> n = - 1)"
proof (intro conjI impI allI)
  assume "glfwInit_result e = 0"
  then show "snd (main lib e) = Exit (- 1)"
    and "trace (fst (main lib e)) =
        [Util InitRotatorMouse, GLFW GlfwInit,
         Printf ''Failed to initialise GLFW. Exiting.\<newline>'' []]"
    by (simp_all add: main_not_initialised)
next
  assume a: "glfwInit_result e \<noteq> 0 \<and> glfwGetVideoMode_result e \<noteq> None
        \<and> glfwCreateWindow_result e = None"
  then obtain v where "glfwGetVideoMode_result e = Some v" by auto
  with a show "snd (main lib e) = Exit (- 1)"
    and "suffix [Printf ''Failed to open GLFW window. Exiting.\<newline>'' [], GLFW GlfwTerminate]
        (trace (fst (main lib e)))"
    by (simp_all add: main_no_window call_fields suffix_def)
next
  assume a: "glfwInit_result e \<noteq> 0 \<and> glfwGetVideoMode_result e \<noteq> None
        \<and> glfwCreateWindow_result e \<noteq> None"
  then obtain v w where "glfwGetVideoMode_result e = Some v"
    and "glfwCreateWindow_result e = Some w" by auto
  with a show "(snd (main lib e) = Exit 0 \<and>
       suffix [GLFW GlfwDestroyWindow, GLFW GlfwTerminate] (trace (fst (main lib e))))
      \<or> snd (main lib e) = Running"
    by (simp add: main_started run_outcome run_trace suffix_def)
next
  assume "\<exists>i \<in> set (frames e). close_requested i \<or> glfwGetKey_result i GLFW_KEY_ESCAPE \<noteq> 0"
  then show "snd (main lib e) \<noteq> Running"
    by (simp add: main_outcome render_loop_left)
next
  assume "snd (main lib e) = Exit 0"
  then show "glfwInit_result e \<noteq> 0" and "glfwCreateWindow_result e \<noteq> None"
    by (simp_all add: main_outcome split: if_splits)
next
  fix n
  assume "snd (main lib e) = Exit n"
  then show "n = 0 \<or> n = - 1"
    by (simp add: main_outcome split: if_splits)
qed

theorem C4_witness:
  "snd (main ref_tnm084 sample_env) = Exit 0
   \<and> suffix [GLFW GlfwDestroyWindow, GLFW GlfwTerminate]
        (trace (fst (main ref_tnm084 sample_env)))
   \<and> snd (main ref_tnm084 (sample_env\<lparr>glfwInit_result := 0\<rparr>)) = Exit (- 1)
   \<and> snd (main ref_tnm084 (sample_env\<lparr>glfwCreateWindow_result := None\<rparr>)) = Exit (- 1)"
  using C4_exit_status [of sample_env ref_tnm084]
    C4_exit_status [of "sample_env\<lparr>glfwInit_result := 0\<rparr>" ref_tnm084]
    C4_exit_status [of "sample_env\<lparr>glfwCreateWindow_result := None\<rparr>" ref_tnm084]
  by (auto simp add: sample_env_fields sample_frames_fields)

section \<open>Reloading the shader\<close>

text \<open>
  C5 (as the code has it).  An iteration that finds the space bar down deletes the
  program object it holds, once, requests one compilation of the two shader files, and
  keeps the new handle; an iteration that finds it up does neither.  So over a run of the
  loop the deletions and the compilations each number as many as the iterations that ran
  with the space bar down: one for every iteration in which the key is held.
\<close>

theorem C5_reload_in_every_iteration_with_space_down:
  "filter is_delete (frame_calls lib apple i s) =
     (if space_down i then [GL (GlDeleteProgram (programObject s))] else [])
   \<and> filter is_compile (frame_calls lib apple i s) =
     (if space_down i
      then [Util (CreateShader (VERTEXSHADERFILENAME apple) (FRAGMENTSHADERFILENAME apple))]
      else [])
   \<and> programObject (frame lib apple i s) =
     (if space_down i then createShader_reload i else programObject s)
   \<and> length (filter is_delete (loop_calls lib apple ins s)) =
     length (filter space_down (frames_run lib apple ins s))
   \<and> length (filter is_compile (loop_calls lib apple ins s)) =
     length (filter space_down (frames_run lib apple ins s))"
proof -
  have "programObject (frame lib apple i s) =
     (if space_down i then createShader_reload i else programObject s)"
    by (simp add: frame_fields space_down_def)
  with frame_calls_filters(3,4) [of lib apple i s] loop_calls_reloads [of lib apple ins s]
  show ?thesis by simp
qed

theorem C5_witness:
  "length (filter is_delete (loop_calls ref_tnm084 False sample_frames sample_locals)) = 2
   \<and> length (filter is_compile (loop_calls ref_tnm084 False sample_frames sample_locals)) = 2"
  using C5_reload_in_every_iteration_with_space_down
    [of ref_tnm084 False sample_frame sample_locals sample_frames]
  by (simp add: sample_run sample_fields sample_frames_fields)

text \<open>
  The claim C5 as stated fails when the key is held: in three iterations the space bar is
  found down, down and up, which is one press, and the program is deleted twice and
  compiled twice.
\<close>

theorem C5_counterexample:
  "map (\<lambda>i. glfwGetKey_result i GLFW_KEY_SPACE)
     (frames_run ref_tnm084 False sample_frames sample_locals) = [1, 1, 0]
   \<and> press_edges False [1, 1, 0] = 1
   \<and> length (filter is_delete (loop_calls ref_tnm084 False sample_frames sample_locals)) = 2
   \<and> length (filter is_compile (loop_calls ref_tnm084 False sample_frames sample_locals)) = 2"
  by (simp add: loop_calls_reloads sample_run sample_fields sample_frames_fields)

section \<open>The mesh\<close>

text \<open>
  C9 (as the code has it).  The mesh is not loaded from a file.  When GLFW starts and the
  window opens, the program builds the mesh with one call of \<^verbatim>\<open>soupCreateSphere\<close>
  (radius 1.0, 50 segments, line 181); the call of \<^verbatim>\<open>soupReadOBJ\<close> with the
  configured mesh path is commented out (line 182), so no run makes it, and the mesh path
  is not among the files that any call names.  Those are the texture file and the two
  shader files.
\<close>

theorem C9_mesh_is_a_generated_sphere:
  "filter is_mesh_source (trace (fst (main lib e))) =
     (if glfwInit_result e \<noteq> 0 \<and> glfwGetVideoMode_result e \<noteq> None
         \<and> glfwCreateWindow_result e \<noteq> None
      then [Util (SoupCreateSphere (Num 1) 50)] else [])
   \<and> Util (SoupReadOBJ (MESHFILENAME (APPLE e))) \<notin> set (trace (fst (main lib e)))
   \<and> MESHFILENAME (APPLE e) \<notin> set (concat (map files_named (trace (fst (main lib e)))))
   \<and> set (concat (map files_named (trace (fst (main lib e)))))
       \<subseteq> {TEXTUREFILENAME (APPLE e), VERTEXSHADERFILENAME (APPLE e),
          FRAGMENTSHADERFILENAME (APPLE e)}"
  using main_mesh_and_files [of lib e] main_reads_no_mesh [of "MESHFILENAME (APPLE e)" lib e]
    mesh_file_is_no_other [of "APPLE e"]
  by blast

theorem C9_witness:
  "filter is_mesh_source (trace (fst (main ref_tnm084 sample_env))) =
     [Util (SoupCreateSphere (Num 1) 50)]
   \<and> MESHFILENAME False \<notin> set (concat (map files_named (trace (fst (main ref_tnm084 sample_env)))))"
  using C9_mesh_is_a_generated_sphere [of ref_tnm084 sample_env]
  by (simp add: sample_env_fields)

text \<open>
  The claim C9 as stated fails in a complete run: the program starts, renders three
  frames and exits with status 0, and it never calls the loader with the mesh path; the
  mesh comes from \<^verbatim>\<open>soupCreateSphere\<close>.
\<close>

theorem C9_counterexample:
  "snd (main ref_tnm084 sample_env) = Exit 0
   \<and> Util (SoupReadOBJ (MESHFILENAME False)) \<notin> set (trace (fst (main ref_tnm084 sample_env)))
   \<and> filter is_mesh_source (trace (fst (main ref_tnm084 sample_env))) =
       [Util (SoupCreateSphere (Num 1) 50)]"
  by (simp add: main_outcome main_reads_no_mesh main_mesh_and_files sample_env_fields
        sample_run loop_entry_fields)

section \<open>The cached uniform locations\<close>

text \<open>
  C10.  The four uniform locations are queried once each, in a run that gets as far as
  compiling the shader, against the program object of that first compilation; a run that
  stops earlier queries none.  The loop makes no such query and assigns none of the four
  cached values: after any number of iterations, and at the end of \<^verbatim>\<open>main\<close>, they
  are what the queries at start-up returned.  An iteration that finds the space bar down
  replaces \<open>programObject\<close> by the new handle and leaves the four locations as they were.
\<close>

theorem C10_locations_are_cached_once:
  "filter is_location_query (trace (fst (main lib e))) =
     (if glfwInit_result e \<noteq> 0 \<and> glfwGetVideoMode_result e \<noteq> None
         \<and> glfwCreateWindow_result e \<noteq> None
      then [GL (GlGetUniformLocation (createShader_result e) ''MV''),
            GL (GlGetUniformLocation (createShader_result e) ''P''),
            GL (GlGetUniformLocation (createShader_result e) ''time''),
            GL (GlGetUniformLocation (createShader_result e) ''tex'')]
      else [])
   \<and> filter is_location_query (loop_calls lib apple ins s) = []
   \<and> location_MV (fst (render_loop lib apple ins s)) = location_MV s
   \<and> location_P (fst (render_loop lib apple ins s)) = location_P s
   \<and> location_time (fst (render_loop lib apple ins s)) = location_time s
   \<and> location_tex (fst (render_loop lib apple ins s)) = location_tex s
   \<and> programObject (frame lib apple i s) =
       (if space_down i then createShader_reload i else programObject s)
   \<and> location_MV (frame lib apple i s) = location_MV s
   \<and> location_P (frame lib apple i s) = location_P s
   \<and> location_time (frame lib apple i s) = location_time s
   \<and> location_tex (frame lib apple i s) = location_tex s
   \<and> (glfwInit_result e \<noteq> 0 \<and> glfwGetVideoMode_result e \<noteq> None
        \<and> glfwCreateWindow_result e \<noteq> None \<longrightarrow>
       location_MV (fst (main lib e)) =
         glGetUniformLocation_result e (createShader_result e) ''MV''
       \<and> location_P (fst (main lib e)) =
         glGetUniformLocation_result e (createShader_result e) ''P''
       \<and> location_time (fst (main lib e)) =
         glGetUniformLocation_result e (createShader_result e) ''time''
       \<and> location_tex (fst (main lib e)) =
         glGetUniformLocation_result e (createShader_result e) ''tex'')"
proof -
  have "location_MV (fst (main lib e)) =
         glGetUniformLocation_result e (createShader_result e) ''MV''
       \<and> location_P (fst (main lib e)) =
         glGetUniformLocation_result e (createShader_result e) ''P''
       \<and> location_time (fst (main lib e)) =
         glGetUniformLocation_result e (createShader_result e) ''time''
       \<and> location_tex (fst (main lib e)) =
         glGetUniformLocation_result e (createShader_result e) ''tex''"
    if "glfwInit_result e \<noteq> 0" and "glfwGetVideoMode_result e \<noteq> None"
      and "glfwCreateWindow_result e \<noteq> None"
  proof -
    from that obtain v w where "glfwGetVideoMode_result e = Some v"
      and "glfwCreateWindow_result e = Some w" by auto
    with that show ?thesis
      by (simp add: main_started run_locations loop_entry_fields)
  qed
  then show ?thesis
    using render_loop_locations [of lib apple ins s]
    by (simp add: main_location_queries loop_calls_filters frame_fields space_down_def)
qed

theorem C10_witness:
  "filter is_location_query (trace (fst (main ref_tnm084 sample_env))) =
     [GL (GlGetUniformLocation 1 ''MV''), GL (GlGetUniformLocation 1 ''P''),
      GL (GlGetUniformLocation 1 ''time''), GL (GlGetUniformLocation 1 ''tex'')]
   \<and> programObject (fst (main ref_tnm084 sample_env)) = 3
   \<and> location_MV (fst (main ref_tnm084 sample_env)) = 0
   \<and> location_P (fst (main ref_tnm084 sample_env)) = 1
   \<and> location_time (fst (main ref_tnm084 sample_env)) = 2
   \<and> location_tex (fst (main ref_tnm084 sample_env)) = - 1"
  using C10_locations_are_cached_once [of ref_tnm084 sample_env]
  by (simp add: sample_env_fields main_started [of sample_env "(1600, 800)" 1]
        run_programObject sample_run loop_entry_fields)

end
